theory Spec2Isabelle
  imports Complex_Main
begin

section \<open>Python strings, paths and dictionaries\<close>

text \<open>
  Strings are lists of characters. \<open>str.lower()\<close> is modelled on the ASCII letters, which
  is what the error texts of the fetch tool and the file extensions consist of.
\<close>

definition char_lower :: "char \<Rightarrow> char" where
  "char_lower c =
     (case map_of (zip ''ABCDEFGHIJKLMNOPQRSTUVWXYZ'' ''abcdefghijklmnopqrstuvwxyz'') c of
        Some l \<Rightarrow> l
      | None \<Rightarrow> c)"

definition str_lower :: "string \<Rightarrow> string" where
  "str_lower s = map char_lower s"

text \<open>\<open>s.startswith(p)\<close>, \<open>s.endswith(p)\<close> and the substring test \<open>pat in s\<close>.\<close>

fun startswith :: "string \<Rightarrow> string \<Rightarrow> bool" where
  "startswith s [] = True"
| "startswith [] (p # ps) = False"
| "startswith (c # cs) (p # ps) = (c = p \<and> startswith cs ps)"

definition endswith :: "string \<Rightarrow> string \<Rightarrow> bool" where
  "endswith s p = startswith (rev s) (rev p)"

fun str_in :: "string \<Rightarrow> string \<Rightarrow> bool" where
  "str_in pat [] = (pat = [])"
| "str_in pat (c # cs) = (startswith (c # cs) pat \<or> str_in pat cs)"

text \<open>\<open>s.rstrip("/")\<close>, \<open>str(n)\<close> for a natural number, and \<open>s.title()\<close> on ASCII.\<close>

definition rstrip_slash :: "string \<Rightarrow> string" where
  "rstrip_slash s = rev (dropWhile (\<lambda>c. c = CHR ''/'') (rev s))"

fun str_of_nat :: "nat \<Rightarrow> string" where
  "str_of_nat n =
     (if n < 10 then [''0123456789'' ! n]
      else str_of_nat (n div 10) @ [''0123456789'' ! (n mod 10)])"

definition char_upper :: "char \<Rightarrow> char" where
  "char_upper c =
     (case map_of (zip ''abcdefghijklmnopqrstuvwxyz'' ''ABCDEFGHIJKLMNOPQRSTUVWXYZ'') c of
        Some u \<Rightarrow> u
      | None \<Rightarrow> c)"

definition is_cased :: "char \<Rightarrow> bool" where
  "is_cased c = (c \<in> set ''abcdefghijklmnopqrstuvwxyzABCDEFGHIJKLMNOPQRSTUVWXYZ'')"

fun title_from :: "bool \<Rightarrow> string \<Rightarrow> string" where
  "title_from in_word [] = []"
| "title_from in_word (c # cs) =
     (if is_cased c then (if in_word then char_lower c else char_upper c) # title_from True cs
      else c # title_from False cs)"

definition str_title :: "string \<Rightarrow> string" where
  "str_title s = title_from False s"

text \<open>\<open>os.path.join(a, b)\<close> on POSIX, for two components.\<close>

definition path_join :: "string \<Rightarrow> string \<Rightarrow> string" where
  "path_join a b =
     (if startswith b ''/'' then b
      else if a = [] \<or> endswith a ''/'' then a @ b
      else a @ ''/'' @ b)"

text \<open>
  \<open>os.path.splitext(p)[1]\<close>: the extension starts at the last dot of the base name,
  leading dots of the base name do not count.
\<close>

definition basename :: "string \<Rightarrow> string" where
  "basename p = rev (takeWhile (\<lambda>c. c \<noteq> CHR ''/'') (rev p))"

definition splitext_ext :: "string \<Rightarrow> string" where
  "splitext_ext p =
     (let b = dropWhile (\<lambda>c. c = CHR ''.'') (basename p)
      in if CHR ''.'' \<in> set b
         then CHR ''.'' # rev (takeWhile (\<lambda>c. c \<noteq> CHR ''.'') (rev b))
         else [])"

text \<open>
  The values the program puts into its dictionaries, and a dictionary as an association list
  in insertion order. \<open>dict_set\<close> is \<open>d[k] = v\<close>, \<open>dict_update\<close> is \<open>d.update(e)\<close>.
\<close>

datatype jval =
    JNone
  | JBool bool
  | JInt int
  | JReal real
  | JStr string
  | JDict "(string \<times> jval) list"

type_synonym pydict = "(string \<times> jval) list"

definition dict_get :: "pydict \<Rightarrow> string \<Rightarrow> jval option" where
  "dict_get d k = map_of d k"

fun dict_set :: "string \<Rightarrow> jval \<Rightarrow> pydict \<Rightarrow> pydict" where
  "dict_set k v [] = [(k, v)]"
| "dict_set k v ((k', v') # d) = (if k' = k then (k, v) # d else (k', v') # dict_set k v d)"

definition dict_update :: "pydict \<Rightarrow> pydict \<Rightarrow> pydict" where
  "dict_update d e = foldl (\<lambda>acc (k, v). dict_set k v acc) d e"

section \<open>The world the program runs in\<close>

text \<open>
  The external collaborators are oracles: the k-th invocation of a tool has the outcome the
  oracle gives at k, so every behaviour of the tool is some oracle. What a tool does to the
  file it is asked to produce is a \<open>file_effect\<close>.
\<close>

datatype file_effect = Keep | Wrote nat | Deleted

text \<open>An invocation of the fetch tool: what happens to the output file, and the message of
  the exception it raises, if any.\<close>

record ydl_outcome =
  ydl_file :: file_effect
  ydl_raises :: "string option"

text \<open>An invocation of the transcoding tool: whether starting the process raises, the
  return code, and what happens to the output file.\<close>

record ffmpeg_outcome =
  ff_spawn_fails :: bool
  ff_returncode :: int
  ff_file :: file_effect

text \<open>
  What the messaging backend sends. A media object (\<open>audio\<close>, \<open>video\<close>, \<open>document\<close>) and a
  message are JSON objects whose keys may be absent; the values have the types of the Bot
  API. A response body is read through the key the request is about: a list of messages for
  a history page, one message for an upload, a file path for \<open>getFile\<close>.
\<close>

record media =
  m_file_id :: "string option"
  m_file_size :: "int option"
  m_duration :: "int option"
  m_mime_type :: "string option"
  m_title :: "string option"
  m_file_name :: "string option"

record message =
  msg_message_id :: "int option"
  msg_caption :: "string option"
  msg_text :: "string option"
  msg_audio :: "media option"
  msg_document :: "media option"
  msg_video :: "media option"

record tg_body =
  body_ok :: bool
  result_messages :: "message list option"
  result_message :: "message option"
  result_file_path :: "string option"

datatype http_body = NotJson string | Json tg_body

datatype http_outcome =
    HttpTimeout
  | HttpFails string
  | HttpResponse nat http_body

text \<open>
  The effects the program has on the outside, in the order they happen. \<open>SearchDb\<close> marks
  an entry into \<open>search_in_db_channel\<close> and \<open>SetTask\<close> a write of a status into the task
  registry, so that invocations and status changes can be counted.
\<close>

datatype event =
    Sleep nat
  | RunYdl pydict string
  | RunFfmpeg "string list"
  | HttpGet string pydict
  | HttpPost string pydict
  | SearchDb string
  | SetTask string string

record world =
  files :: "string \<rightharpoonup> nat"
  trace :: "event list"
  ydl_tool :: "nat \<Rightarrow> ydl_outcome"
  ydl_calls :: nat
  ffmpeg_tool :: "nat \<Rightarrow> ffmpeg_outcome"
  ffmpeg_calls :: nat
  http_server :: "nat \<Rightarrow> http_outcome"
  http_calls :: nat
  temp_names :: "nat \<Rightarrow> string"
  temps_made :: nat
  clock :: "nat \<Rightarrow> real"
  clock_reads :: nat
  channel_cache :: "string \<rightharpoonup> (pydict \<times> real)"
  background_upload_tasks :: "string \<rightharpoonup> pydict"

text \<open>The calls of \<open>search_in_db_channel\<close> and the status writes within a trace.\<close>

fun is_mark :: "event \<Rightarrow> bool" where
  "is_mark (SearchDb video_id) = True"
| "is_mark (SetTask task_id status) = True"
| "is_mark e = False"

definition marks :: "world \<Rightarrow> event list" where
  "marks w = filter is_mark (trace w)"

definition path_exists :: "string \<Rightarrow> world \<Rightarrow> bool" where
  "path_exists p w = (files w p \<noteq> None)"

definition apply_effect :: "string \<Rightarrow> file_effect \<Rightarrow> world \<Rightarrow> world" where
  "apply_effect p e w =
     (case e of
        Keep \<Rightarrow> w
      | Wrote n \<Rightarrow> w\<lparr>files := (files w)(p \<mapsto> n)\<rparr>
      | Deleted \<Rightarrow> w\<lparr>files := (files w)(p := None)\<rparr>)"

definition log_event :: "event \<Rightarrow> world \<Rightarrow> world" where
  "log_event e w = w\<lparr>trace := trace w @ [e]\<rparr>"

section \<open>utils/downloader.py\<close>

datatype exn =
    ValueError string
  | RuntimeError string
  | KeyError string

text \<open>\<open>str(e)\<close>\<close>

fun exn_message :: "exn \<Rightarrow> string" where
  "exn_message (ValueError m) = m"
| "exn_message (RuntimeError m) = m"
| "exn_message (KeyError k) = [CHR 0x27] @ k @ [CHR 0x27]"

definition DOWNLOAD_FOLDER :: string where
  "DOWNLOAD_FOLDER = ''downloads''"

definition COOKIE_FILE :: string where
  "COOKIE_FILE = ''cookies/cookie.txt''"

definition build_base_opts :: "string \<Rightarrow> pydict \<Rightarrow> world \<Rightarrow> pydict" where
  "build_base_opts outtmpl extra w =
     (let opts = [(''outtmpl'', JStr outtmpl),
                  (''quiet'', JBool True),
                  (''no_warnings'', JBool True),
                  (''noplaylist'', JBool True),
                  (''geo_bypass'', JBool True),
                  (''nocheckcertificate'', JBool True),
                  (''socket_timeout'', JInt 30),
                  (''user_agent'', JStr ''Mozilla/5.0 (Windows NT 10.0; Win64; x64) AppleWebKit/537.36 (KHTML, like Gecko) Chrome/120.0.0.0 Safari/537.36'')];
          opts1 = (if extra \<noteq> [] then dict_update opts extra else opts)
      in if path_exists COOKIE_FILE w
         then dict_set ''cookiefile'' (JStr COOKIE_FILE) opts1
         else opts1)"

text \<open>
  \<open>_run_ydl\<close>: one invocation of the fetch tool. The tool writes to the path that the
  options name as \<open>outtmpl\<close>; the result is the message of the exception, or nothing.
\<close>

definition run_ydl :: "pydict \<Rightarrow> string \<Rightarrow> world \<Rightarrow> (string + unit) \<times> world" where
  "run_ydl opts url w =
     (let out = ydl_tool w (ydl_calls w);
          w1 = log_event (RunYdl opts url) (w\<lparr>ydl_calls := ydl_calls w + 1\<rparr>);
          w2 = (case dict_get opts ''outtmpl'' of
                  Some (JStr p) \<Rightarrow> apply_effect p (ydl_file out) w1
                | _ \<Rightarrow> w1)
      in (case ydl_raises out of Some msg \<Rightarrow> Inl msg | None \<Rightarrow> Inr (), w2))"

definition backoff :: "nat list" where
  "backoff = [0, 1, 2, 4]"

definition sleep_for :: "nat \<Rightarrow> world \<Rightarrow> world" where
  "sleep_for delay w = (if delay \<noteq> 0 then log_event (Sleep delay) w else w)"

text \<open>
  The inner loop of \<open>download\<close>, over what is left of \<open>enumerate(backoff)\<close>. The loop is
  left in one of three ways: by the \<open>return\<close> of the path, when an attempt returned and the
  file is there; by \<open>break\<close>; or because the schedule has run out.
\<close>

datatype loop_exit = Returned string | Broke | Ended

fun retry_loop :: "pydict \<Rightarrow> string \<Rightarrow> string \<Rightarrow> (nat \<times> nat) list \<Rightarrow> world
    \<Rightarrow> loop_exit \<times> world" where
  "retry_loop base_opts url file_path [] w = (Ended, w)"
| "retry_loop base_opts url file_path ((retry_no, delay) # rest) w =
     (case run_ydl base_opts url (sleep_for delay w) of
        (Inr _, w') \<Rightarrow>
          if path_exists file_path w' then (Returned file_path, w')
          else retry_loop base_opts url file_path rest w'
      | (Inl e, w') \<Rightarrow>
          (let err = str_lower e in
           if (str_in ''requested format is not available'' err
               \<or> str_in ''unable to download webpage'' err \<and> str_in ''429'' err)
              \<and> str_in ''requested format is not available'' err
           then (Broke, w')
           else if retry_no = length backoff - 1 then (Broke, w')
           else retry_loop base_opts url file_path rest w'))"

text \<open>
  The outer loop over the tiers: each tier runs the inner loop with the whole schedule, and
  the next tier follows however the inner loop was left, unless it returned. When every
  tier is used up the function raises.
\<close>

fun tier_loop :: "pydict list \<Rightarrow> string \<Rightarrow> string \<Rightarrow> world \<Rightarrow> (exn + string) \<times> world" where
  "tier_loop [] url file_path w = (Inl (RuntimeError ''attempts failed''), w)"
| "tier_loop (base_opts # tries) url file_path w =
     (case retry_loop base_opts url file_path (enumerate 0 backoff) w of
        (Returned p, w') \<Rightarrow> (Inr p, w')
      | (Broke, w') \<Rightarrow> tier_loop tries url file_path w'
      | (Ended, w') \<Rightarrow> tier_loop tries url file_path w')"

definition audio_tries :: "string \<Rightarrow> world \<Rightarrow> pydict list" where
  "audio_tries file_path w =
     [build_base_opts file_path [(''format'', JStr ''bestaudio[abr<=128]/bestaudio'')] w,
      build_base_opts file_path [(''format'', JStr ''bestaudio/best'')] w,
      build_base_opts file_path [(''format'', JStr ''worstaudio/worst'')] w]"

definition video_tries :: "string \<Rightarrow> world \<Rightarrow> pydict list" where
  "video_tries file_path w =
     [build_base_opts file_path [(''format'', JStr ''bestvideo[height<=720]+bestaudio/best''),
                                 (''merge_output_format'', JStr ''mp4'')] w,
      build_base_opts file_path [(''format'', JStr ''bestvideo+bestaudio/best''),
                                 (''merge_output_format'', JStr ''mp4'')] w,
      build_base_opts file_path [(''format'', JStr ''worstvideo/worst+bestaudio/worst''),
                                 (''merge_output_format'', JStr ''mp4'')] w]"

definition watch_url :: "string \<Rightarrow> string" where
  "watch_url video_id = ''https://www.youtube.com/watch?v='' @ video_id"

definition download :: "string \<Rightarrow> string \<Rightarrow> world \<Rightarrow> (exn + string) \<times> world" where
  "download video_id type' w =
     (let url = watch_url video_id in
      if type' = ''audio'' then
        (let file_path = path_join DOWNLOAD_FOLDER (video_id @ ''.webm'') in
         if path_exists file_path w then (Inr file_path, w)
         else tier_loop (audio_tries file_path w) url file_path w)
      else if type' = ''video'' then
        (let file_path = path_join DOWNLOAD_FOLDER (video_id @ ''.mp4'') in
         if path_exists file_path w then (Inr file_path, w)
         else tier_loop (video_tries file_path w) url file_path w)
      else (Inl (ValueError ''Invalid type''), w))"

text \<open>The canonical path of an artifact, as \<open>download\<close> computes it.\<close>

definition canonical_path :: "string \<Rightarrow> string \<Rightarrow> string" where
  "canonical_path video_id type' =
     path_join DOWNLOAD_FOLDER (video_id @ (if type' = ''audio'' then ''.webm'' else ''.mp4''))"

section \<open>main.py: configuration\<close>

text \<open>
  The settings the module reads from the environment. \<open>DownloadManager\<close> creates its
  \<open>telegram_db\<close> and \<open>telegram_uploader\<close> only when the bot token is not empty.
\<close>

record config =
  API_KEY :: string
  TELEGRAM_BOT_TOKEN :: string
  TELEGRAM_DB_CHANNEL :: string
  TELEGRAM_UPLOAD_CHANNEL :: string
  downloader_available :: bool

definition CACHE_TTL :: real where
  "CACHE_TTL = 3600"

definition TELEGRAM_FILE_LIMIT :: nat where
  "TELEGRAM_FILE_LIMIT = 50 * 1024 * 1024"

definition TELEGRAM_VIDEO_LIMIT :: nat where
  "TELEGRAM_VIDEO_LIMIT = 50 * 1024 * 1024"

definition has_telegram_db :: "config \<Rightarrow> bool" where
  "has_telegram_db cfg = (TELEGRAM_BOT_TOKEN cfg \<noteq> [])"

definition has_telegram_uploader :: "config \<Rightarrow> bool" where
  "has_telegram_uploader cfg = (TELEGRAM_BOT_TOKEN cfg \<noteq> [])"

definition base_url :: "config \<Rightarrow> string" where
  "base_url cfg = ''https://api.telegram.org/bot'' @ TELEGRAM_BOT_TOKEN cfg"

text \<open>\<open>time.time()\<close>: the next reading of the clock.\<close>

definition time_time :: "world \<Rightarrow> real \<times> world" where
  "time_time w = (clock w (clock_reads w), w\<lparr>clock_reads := clock_reads w + 1\<rparr>)"

section \<open>main.py: MediaCompressor\<close>

text \<open>One run of the transcoding tool: \<open>None\<close> when the process could not be started,
  the return code otherwise.\<close>

definition run_ffmpeg :: "string list \<Rightarrow> string \<Rightarrow> world \<Rightarrow> int option \<times> world" where
  "run_ffmpeg cmd output_path w =
     (let out = ffmpeg_tool w (ffmpeg_calls w);
          w1 = log_event (RunFfmpeg cmd) (w\<lparr>ffmpeg_calls := ffmpeg_calls w + 1\<rparr>)
      in if ff_spawn_fails out then (None, w1)
         else (Some (ff_returncode out), apply_effect output_path (ff_file out) w1))"

text \<open>
  After a run with return code 0 and an output file, \<open>compress_audio\<close> and \<open>compress_video\<close>
  compute the compression ratio for the log: \<open>getsize\<close> of a missing input raises and an
  input of size 0 divides by zero; the \<open>except\<close> clause turns both into \<open>False\<close>.
\<close>

definition compression_logged :: "string \<Rightarrow> string \<Rightarrow> world \<Rightarrow> bool" where
  "compression_logged input_path output_path w =
     (case files w input_path of
        None \<Rightarrow> False
      | Some original_size \<Rightarrow>
          (case files w output_path of
             None \<Rightarrow> False
           | Some compressed_size \<Rightarrow> original_size \<noteq> 0))"

definition compress_audio :: "string \<Rightarrow> string \<Rightarrow> string \<Rightarrow> world \<Rightarrow> bool \<times> world" where
  "compress_audio input_path output_path target_bitrate w =
     (case run_ffmpeg [''ffmpeg'', ''-i'', input_path, ''-b:a'', target_bitrate, ''-vn'', ''-y'',
                       output_path] output_path w of
        (None, w') \<Rightarrow> (False, w')
      | (Some returncode, w') \<Rightarrow>
          if returncode = 0 \<and> path_exists output_path w'
          then (compression_logged input_path output_path w', w')
          else (False, w'))"

definition compress_video :: "string \<Rightarrow> string \<Rightarrow> string \<Rightarrow> string \<Rightarrow> string \<Rightarrow> world
    \<Rightarrow> bool \<times> world" where
  "compress_video input_path output_path video_bitrate audio_bitrate scale w =
     (case run_ffmpeg [''ffmpeg'', ''-i'', input_path, ''-c:v'', ''libx264'', ''-b:v'', video_bitrate,
                       ''-c:a'', ''aac'', ''-b:a'', audio_bitrate,
                       ''-vf'', ''scale='' @ scale @ '':flags=lanczos'',
                       ''-preset'', ''medium'', ''-crf'', ''23'', ''-y'', output_path] output_path w of
        (None, w') \<Rightarrow> (False, w')
      | (Some returncode, w') \<Rightarrow>
          if returncode = 0 \<and> path_exists output_path w'
          then (compression_logged input_path output_path w', w')
          else (False, w'))"

definition convert_to_webm :: "string \<Rightarrow> string \<Rightarrow> world \<Rightarrow> bool \<times> world" where
  "convert_to_webm input_path output_path w =
     (case run_ffmpeg [''ffmpeg'', ''-i'', input_path, ''-c:v'', ''libvpx-vp9'', ''-b:v'', ''1M'',
                       ''-c:a'', ''libopus'', ''-b:a'', ''128k'', ''-f'', ''webm'', ''-y'',
                       output_path] output_path w of
        (None, w') \<Rightarrow> (False, w')
      | (Some returncode, w') \<Rightarrow> (returncode = 0 \<and> path_exists output_path w', w'))"

section \<open>main.py: TelegramUploader\<close>

text \<open>
  \<open>tempfile.NamedTemporaryFile(delete=False, suffix=...)\<close> creates an empty file under a
  name that is not in use. The name is the environment's choice; a choice that is in use
  stands for the case in which no usable name is found, and raises.
\<close>

definition named_temporary_file :: "string \<Rightarrow> world \<Rightarrow> string option \<times> world" where
  "named_temporary_file suffix w =
     (let name = temp_names w (temps_made w) @ suffix;
          w1 = w\<lparr>temps_made := temps_made w + 1\<rparr>
      in if path_exists name w1 then (None, w1)
         else (Some name, w1\<lparr>files := (files w1)(name \<mapsto> 0)\<rparr>))"

definition os_remove :: "string \<Rightarrow> world \<Rightarrow> world" where
  "os_remove p w = w\<lparr>files := (files w)(p := None)\<rparr>"

definition os_rename :: "string \<Rightarrow> string \<Rightarrow> world \<Rightarrow> world" where
  "os_rename src dst w = w\<lparr>files := (files w)(dst := files w src, src := None)\<rparr>"

text \<open>
  The two bitrate ladders of \<open>_compress_if_needed\<close>. Each is the \<open>for\<close> loop with its
  variable \<open>success\<close>: the result is the value \<open>success\<close> has when the loop is left, or
  \<open>None\<close> when \<open>getsize\<close> raised.
\<close>

fun audio_ladder :: "string \<Rightarrow> string \<Rightarrow> nat \<Rightarrow> string list \<Rightarrow> bool \<Rightarrow> world
    \<Rightarrow> bool option \<times> world" where
  "audio_ladder file_path temp_path file_limit [] success w = (Some success, w)"
| "audio_ladder file_path temp_path file_limit (bitrate # rest) success w =
     (case compress_audio file_path temp_path bitrate w of
        (success', w') \<Rightarrow>
          if success' then
            (case files w' temp_path of
               None \<Rightarrow> (None, w')
             | Some sz \<Rightarrow>
                 if sz \<le> file_limit then (Some success', w')
                 else audio_ladder file_path temp_path file_limit rest success' w')
          else audio_ladder file_path temp_path file_limit rest success' w')"

fun video_ladder :: "string \<Rightarrow> string \<Rightarrow> nat \<Rightarrow> string list \<Rightarrow> bool \<Rightarrow> world
    \<Rightarrow> bool option \<times> world" where
  "video_ladder file_path temp_path file_limit [] success w = (Some success, w)"
| "video_ladder file_path temp_path file_limit (v_bitrate # rest) success w =
     (case compress_video file_path temp_path v_bitrate ''128k'' ''1280:720'' w of
        (success', w') \<Rightarrow>
          if success' then
            (case files w' temp_path of
               None \<Rightarrow> (None, w')
             | Some sz \<Rightarrow>
                 if sz \<le> file_limit then (Some success', w')
                 else video_ladder file_path temp_path file_limit rest success' w')
          else video_ladder file_path temp_path file_limit rest success' w')"

text \<open>
  \<open>_compress_if_needed\<close>, from the creation of the temporary file to the end of the
  ladders: the value of \<open>success\<close>, or \<open>None\<close> when an exception was raised on the way.
\<close>

definition compress_attempts :: "string \<Rightarrow> string \<Rightarrow> string \<Rightarrow> nat \<Rightarrow> world
    \<Rightarrow> bool option \<times> world" where
  "compress_attempts file_path media_type temp_path file_limit w =
     (if media_type = ''audio'' then
        audio_ladder file_path temp_path file_limit [''128k'', ''96k'', ''64k''] False w
      else if media_type = ''video'' then
        (let webm_path = temp_path @ ''.webm'' in
         case convert_to_webm file_path webm_path w of
           (converted, w1) \<Rightarrow>
             if converted then
               (case files w1 webm_path of
                  None \<Rightarrow> (None, w1)
                | Some sz \<Rightarrow>
                    if sz \<le> file_limit then (Some True, os_rename webm_path temp_path w1)
                    else video_ladder file_path temp_path file_limit [''1M'', ''800k'', ''500k'']
                           False (os_remove webm_path w1))
             else video_ladder file_path temp_path file_limit [''1M'', ''800k'', ''500k''] False w1)
      else (Some False, w))"

definition compress_if_needed :: "string \<Rightarrow> string \<Rightarrow> nat \<Rightarrow> world \<Rightarrow> string \<times> world" where
  "compress_if_needed file_path media_type file_sz w =
     (let file_ext = str_lower (splitext_ext file_path);
          file_limit = (if media_type = ''video'' then TELEGRAM_VIDEO_LIMIT
                        else TELEGRAM_FILE_LIMIT)
      in if file_sz \<le> file_limit then (file_path, w)
         else
           (case named_temporary_file file_ext w of
              (None, w1) \<Rightarrow> (file_path, w1)
            | (Some temp_path, w1) \<Rightarrow>
                (case compress_attempts file_path media_type temp_path file_limit w1 of
                   (None, w2) \<Rightarrow> (file_path, w2)
                 | (Some success, w2) \<Rightarrow>
                     if success \<and> path_exists temp_path w2 then (temp_path, w2)
                     else if path_exists temp_path w2 then (file_path, os_remove temp_path w2)
                     else (file_path, w2))))"

definition http_request :: "event \<Rightarrow> world \<Rightarrow> http_outcome \<times> world" where
  "http_request e w =
     (http_server w (http_calls w), log_event e (w\<lparr>http_calls := http_calls w + 1\<rparr>))"

definition extract_uploaded_file_info :: "message \<Rightarrow> string \<Rightarrow> pydict" where
  "extract_uploaded_file_info msg media_type =
     (if media_type = ''audio'' \<and> msg_audio msg \<noteq> None then
        (case msg_audio msg of
           Some a \<Rightarrow>
             (case m_file_id a of
                None \<Rightarrow> []
              | Some fid \<Rightarrow>
                  [(''file_id'', JStr fid),
                   (''file_size'', JInt (case m_file_size a of Some n \<Rightarrow> n | None \<Rightarrow> 0)),
                   (''duration'', JInt (case m_duration a of Some n \<Rightarrow> n | None \<Rightarrow> 0)),
                   (''mime_type'', JStr (case m_mime_type a of Some t \<Rightarrow> t | None \<Rightarrow> ''audio/mpeg'')),
                   (''title'', JStr (case m_title a of Some t \<Rightarrow> t | None \<Rightarrow> [])),
                   (''media_type'', JStr ''audio'')])
         | None \<Rightarrow> [])
      else if media_type = ''video'' \<and> msg_video msg \<noteq> None then
        (case msg_video msg of
           Some v \<Rightarrow>
             (case m_file_id v of
                None \<Rightarrow> []
              | Some fid \<Rightarrow>
                  [(''file_id'', JStr fid),
                   (''file_size'', JInt (case m_file_size v of Some n \<Rightarrow> n | None \<Rightarrow> 0)),
                   (''duration'', JInt (case m_duration v of Some n \<Rightarrow> n | None \<Rightarrow> 0)),
                   (''mime_type'', JStr (case m_mime_type v of Some t \<Rightarrow> t | None \<Rightarrow> ''video/mp4'')),
                   (''media_type'', JStr ''video'')])
         | None \<Rightarrow> [])
      else
        (case msg_document msg of
           Some d \<Rightarrow>
             (case m_file_id d of
                None \<Rightarrow> []
              | Some fid \<Rightarrow>
                  [(''file_id'', JStr fid),
                   (''file_size'', JInt (case m_file_size d of Some n \<Rightarrow> n | None \<Rightarrow> 0)),
                   (''mime_type'', JStr (case m_mime_type d of Some t \<Rightarrow> t | None \<Rightarrow> [])),
                   (''file_name'', JStr (case m_file_name d of Some t \<Rightarrow> t | None \<Rightarrow> [])),
                   (''media_type'', JStr ''document'')])
         | None \<Rightarrow> []))"

text \<open>The form field and the API method \<open>upload_file\<close> chooses.\<close>

definition choose_method :: "string \<Rightarrow> string \<Rightarrow> nat \<Rightarrow> string \<times> string" where
  "choose_method media_type file_ext file_sz =
     (if media_type = ''audio'' \<or> file_ext \<in> set [''.mp3'', ''.m4a'', ''.ogg'', ''.wav'', ''.webm''] then
        (if file_sz > TELEGRAM_FILE_LIMIT then (''document'', ''sendDocument'')
         else (''audio'', ''sendAudio''))
      else if media_type = ''video'' \<or> file_ext \<in> set [''.mp4'', ''.mkv'', ''.avi'', ''.mov'', ''.webm''] then
        (if file_sz > TELEGRAM_VIDEO_LIMIT then (''document'', ''sendDocument'')
         else (''video'', ''sendVideo''))
      else (''document'', ''sendDocument''))"

definition error_result :: "string \<Rightarrow> pydict" where
  "error_result msg = [(''status'', JStr ''error''), (''message'', JStr msg)]"

definition no_such_file :: "string \<Rightarrow> string" where
  "no_such_file p = ''[Errno 2] No such file or directory: '' @ [CHR 0x27] @ p @ [CHR 0x27]"

text \<open>
  What \<open>upload_file\<close> returns for the outcome of its request, and whether the branch taken
  holds the clean-up of the compressed file (the branches for an accepted upload and for a
  status other than 200 do, the one for the timeout does not). An exception that is not
  the timeout of the request ends in the outer \<open>except\<close> clause; a missing \<open>message_id\<close>
  raises after the clean-up.
\<close>

definition upload_reply :: "config \<Rightarrow> string \<Rightarrow> nat \<Rightarrow> string \<Rightarrow> string \<Rightarrow> http_outcome
    \<Rightarrow> pydict \<times> bool" where
  "upload_reply cfg media_type file_sz compressed_path file_path outcome =
     (case outcome of
        HttpTimeout \<Rightarrow> (error_result ''Upload timeout'', False)
      | HttpFails e \<Rightarrow> (error_result (''Upload error: '' @ e), False)
      | HttpResponse status body \<Rightarrow>
          if status = 200 then
            (case body of
               NotJson e \<Rightarrow> (error_result (''Upload error: '' @ e), False)
             | Json result \<Rightarrow>
                 if body_ok result then
                   (case result_message result of
                      None \<Rightarrow> (error_result (''Upload error: '' @ exn_message (KeyError ''result'')), False)
                    | Some msg \<Rightarrow>
                        (case msg_message_id msg of
                           None \<Rightarrow>
                             (error_result (''Upload error: '' @ exn_message (KeyError ''message_id'')), True)
                         | Some mid \<Rightarrow>
                             ([(''status'', JStr ''success''),
                               (''message_id'', JInt mid),
                               (''file_info'', JDict (extract_uploaded_file_info msg media_type)),
                               (''channel'', JStr (TELEGRAM_UPLOAD_CHANNEL cfg)),
                               (''file_size_mb'', JReal (real file_sz / (1024 * 1024))),
                               (''compressed'', JBool (if compressed_path \<noteq> []
                                                      then compressed_path \<noteq> file_path
                                                      else False))], True)))
                 else (error_result ''Upload failed'', False))
          else if status = 413
               then (error_result ''File too large even after compression'', True)
               else (error_result (''Upload failed: '' @ str_of_nat status), True))"

text \<open>
  \<open>upload_file\<close>. The source assigns the compressed path to \<open>file_path\<close>; the model calls
  the parameter \<open>file_path0\<close> and the variable after that assignment \<open>file_path\<close>, which is
  the one the clean-up compares \<open>compressed_path\<close> with:
  \<open>if compressed_path and compressed_path != file_path: os.remove(compressed_path)\<close>.
\<close>

definition upload_file :: "config \<Rightarrow> string \<Rightarrow> string \<Rightarrow> string \<Rightarrow> string \<Rightarrow> world
    \<Rightarrow> pydict \<times> world" where
  "upload_file cfg file_path0 video_id media_type caption w =
     (case files w file_path0 of
        None \<Rightarrow> (error_result ''File not found'', w)
      | Some file_size0 \<Rightarrow>
          (case compress_if_needed file_path0 media_type file_size0 w of
             (compressed_path, w1) \<Rightarrow>
               (let replaced = (compressed_path \<noteq> [] \<and> compressed_path \<noteq> file_path0);
                    file_path = (if replaced then compressed_path else file_path0)
                in case files w1 file_path of
                     None \<Rightarrow> (error_result (''Upload error: '' @ no_such_file file_path), w1)
                   | Some on_disk \<Rightarrow>
                       (let file_sz = (if replaced then on_disk else file_size0);
                            file_ext = str_lower (splitext_ext file_path);
                            file_name = basename file_path;
                            method = choose_method media_type file_ext file_sz;
                            data = [(''chat_id'', JStr (TELEGRAM_UPLOAD_CHANNEL cfg)),
                                    (''caption'', JStr (caption @ [CHR 0x0A, CHR 0x0A] @ ''Video ID: '' @ video_id)),
                                    (fst method, JStr file_name)]
                        in case http_request (HttpPost (base_url cfg @ ''/'' @ snd method) data) w1 of
                             (outcome, w2) \<Rightarrow>
                               (case upload_reply cfg media_type file_sz compressed_path file_path outcome of
                                  (result, cleanup) \<Rightarrow>
                                    (result,
                                     if cleanup \<and> compressed_path \<noteq> [] \<and> compressed_path \<noteq> file_path
                                     then os_remove compressed_path w2
                                     else w2))))))"

section \<open>main.py: TelegramDBManager\<close>

text \<open>
  \<open>_extract_file_info\<close>: \<open>None\<close> when the message carries no usable file, also when a
  key read with \<open>[...]\<close> is absent (the \<open>KeyError\<close> is caught).
\<close>

definition extract_file_info :: "message \<Rightarrow> string \<Rightarrow> pydict option" where
  "extract_file_info msg video_id =
     (case msg_audio msg of
        Some a \<Rightarrow>
          (case (m_file_id a, msg_message_id msg) of
             (Some fid, Some mid) \<Rightarrow>
               Some [(''file_id'', JStr fid),
                     (''file_size'', JInt (case m_file_size a of Some n \<Rightarrow> n | None \<Rightarrow> 0)),
                     (''duration'', JInt (case m_duration a of Some n \<Rightarrow> n | None \<Rightarrow> 0)),
                     (''mime_type'', JStr (case m_mime_type a of Some t \<Rightarrow> t | None \<Rightarrow> ''audio/mpeg'')),
                     (''title'', JStr (case m_title a of Some t \<Rightarrow> t | None \<Rightarrow> ''audio_'' @ video_id)),
                     (''message_id'', JInt mid),
                     (''media_type'', JStr ''audio'')]
           | _ \<Rightarrow> None)
      | None \<Rightarrow>
          (case msg_document msg of
             Some d \<Rightarrow>
               (let fname = (case m_file_name d of Some t \<Rightarrow> t | None \<Rightarrow> []);
                    mime = (case m_mime_type d of Some t \<Rightarrow> t | None \<Rightarrow> [])
                in if str_in ''audio'' mime \<or> endswith fname ''.webm'' \<or> endswith fname ''.mp3'' then
                     (case (m_file_id d, msg_message_id msg) of
                        (Some fid, Some mid) \<Rightarrow>
                          Some [(''file_id'', JStr fid),
                                (''file_size'', JInt (case m_file_size d of Some n \<Rightarrow> n | None \<Rightarrow> 0)),
                                (''mime_type'', JStr mime),
                                (''file_name'', JStr fname),
                                (''message_id'', JInt mid),
                                (''media_type'', JStr ''audio'')]
                      | _ \<Rightarrow> None)
                   else if str_in ''video'' mime \<or> endswith fname ''.mp4'' \<or> endswith fname ''.mkv'' then
                     (case (m_file_id d, msg_message_id msg) of
                        (Some fid, Some mid) \<Rightarrow>
                          Some [(''file_id'', JStr fid),
                                (''file_size'', JInt (case m_file_size d of Some n \<Rightarrow> n | None \<Rightarrow> 0)),
                                (''mime_type'', JStr mime),
                                (''file_name'', JStr fname),
                                (''message_id'', JInt mid),
                                (''media_type'', JStr ''video'')]
                      | _ \<Rightarrow> None)
                   else None)
           | None \<Rightarrow>
               (case msg_video msg of
                  Some v \<Rightarrow>
                    (case (m_file_id v, msg_message_id msg) of
                       (Some fid, Some mid) \<Rightarrow>
                         Some [(''file_id'', JStr fid),
                               (''file_size'', JInt (case m_file_size v of Some n \<Rightarrow> n | None \<Rightarrow> 0)),
                               (''duration'', JInt (case m_duration v of Some n \<Rightarrow> n | None \<Rightarrow> 0)),
                               (''mime_type'', JStr (case m_mime_type v of Some t \<Rightarrow> t | None \<Rightarrow> ''video/mp4'')),
                               (''message_id'', JInt mid),
                               (''media_type'', JStr ''video'')]
                     | _ \<Rightarrow> None)
                | None \<Rightarrow> None)))"

text \<open>\<open>message.get('caption', '') or message.get('text', '')\<close>\<close>

definition caption_of :: "message \<Rightarrow> string" where
  "caption_of msg =
     (case msg_caption msg of
        Some c \<Rightarrow> if c \<noteq> [] then c else (case msg_text msg of Some t \<Rightarrow> t | None \<Rightarrow> [])
      | None \<Rightarrow> (case msg_text msg of Some t \<Rightarrow> t | None \<Rightarrow> []))"

text \<open>The request for a page of the channel's history; the deep search adds the offset.\<close>

definition history_request :: "config \<Rightarrow> pydict \<Rightarrow> event" where
  "history_request cfg extra =
     HttpGet (base_url cfg @ ''/getChatHistory'')
       ([(''chat_id'', JStr (TELEGRAM_DB_CHANNEL cfg)), (''limit'', JInt 100)] @ extra)"

text \<open>The scan of one page: the file information of the first message whose caption
  contains the identifier and from which one can be extracted.\<close>

fun scan_messages :: "string \<Rightarrow> message list \<Rightarrow> pydict option" where
  "scan_messages video_id [] = None"
| "scan_messages video_id (msg # rest) =
     (if str_in video_id (caption_of msg) then
        (case extract_file_info msg video_id of
           Some file_info \<Rightarrow> Some file_info
         | None \<Rightarrow> scan_messages video_id rest)
      else scan_messages video_id rest)"

text \<open>
  \<open>_deep_search_channel\<close>: the loop over \<open>range(max_searches // 100)\<close>, with the rounds that
  are left as the first argument. \<open>Inl\<close> is an exception, which the function's \<open>except\<close>
  clause turns into \<open>None\<close>.
\<close>

fun deep_pages :: "nat \<Rightarrow> config \<Rightarrow> string \<Rightarrow> int \<Rightarrow> world \<Rightarrow> (unit + pydict option) \<times> world" where
  "deep_pages 0 cfg video_id offset_id w = (Inr None, w)"
| "deep_pages (Suc n) cfg video_id offset_id w =
     (case http_request (history_request cfg [(''offset_id'', JInt offset_id)]) w of
        (HttpTimeout, w') \<Rightarrow> (Inl (), w')
      | (HttpFails e, w') \<Rightarrow> (Inl (), w')
      | (HttpResponse status body, w') \<Rightarrow>
          if status \<noteq> 200 then (Inr None, w')
          else
            (case body of
               NotJson e \<Rightarrow> (Inl (), w')
             | Json data \<Rightarrow>
                 if \<not> body_ok data \<or> result_messages data = None \<or> result_messages data = Some []
                 then (Inr None, w')
                 else
                   (case result_messages data of
                      None \<Rightarrow> (Inr None, w')
                    | Some messages \<Rightarrow>
                        (case scan_messages video_id messages of
                           Some file_info \<Rightarrow> (Inr (Some file_info), w')
                         | None \<Rightarrow>
                             if messages \<noteq> [] then
                               (case msg_message_id (last messages) of
                                  None \<Rightarrow> (Inl (), w')
                                | Some mid \<Rightarrow> deep_pages n cfg video_id mid w')
                             else (Inr None, w')))))"

definition deep_search_channel :: "config \<Rightarrow> string \<Rightarrow> world \<Rightarrow> pydict option \<times> world" where
  "deep_search_channel cfg video_id w =
     (case deep_pages (500 div 100) cfg video_id 0 w of
        (Inl _, w') \<Rightarrow> (None, w')
      | (Inr r, w') \<Rightarrow> (r, w'))"

text \<open>Storing a result: \<open>self.channel_cache[video_id] = (file_info, time.time())\<close>.\<close>

definition cache_store :: "string \<Rightarrow> pydict \<Rightarrow> world \<Rightarrow> world" where
  "cache_store video_id file_info w =
     (case time_time w of
        (now, w') \<Rightarrow> w'\<lparr>channel_cache := (channel_cache w')(video_id \<mapsto> (file_info, now))\<rparr>)"

text \<open>
  The body of \<open>search_in_db_channel\<close> after the look into the cache. \<open>first_page\<close> is what
  the scan of the latest page gives for the outcome of its request: \<open>Inl\<close> when an exception
  is raised (a transport error, a body that is not JSON), which the \<open>except\<close> clause turns
  into \<open>None\<close>. When the page has no match the deep search follows.
\<close>

definition first_page :: "string \<Rightarrow> http_outcome \<Rightarrow> unit + pydict option" where
  "first_page video_id outcome =
     (case outcome of
        HttpTimeout \<Rightarrow> Inl ()
      | HttpFails e \<Rightarrow> Inl ()
      | HttpResponse status body \<Rightarrow>
          if status = 200 then
            (case body of
               NotJson e \<Rightarrow> Inl ()
             | Json data \<Rightarrow>
                 if body_ok data
                 then Inr (scan_messages video_id
                             (case result_messages data of Some ms \<Rightarrow> ms | None \<Rightarrow> []))
                 else Inr None)
          else Inr None)"

definition remote_search :: "config \<Rightarrow> string \<Rightarrow> world \<Rightarrow> pydict option \<times> world" where
  "remote_search cfg video_id w =
     (case http_request (history_request cfg []) w of
        (outcome, w1) \<Rightarrow>
          (case first_page video_id outcome of
             Inl _ \<Rightarrow> (None, w1)
           | Inr (Some file_info) \<Rightarrow> (Some file_info, cache_store video_id file_info w1)
           | Inr None \<Rightarrow>
               (case deep_search_channel cfg video_id w1 of
                  (Some file_info, w2) \<Rightarrow> (Some file_info, cache_store video_id file_info w2)
                | (None, w2) \<Rightarrow> (None, w2))))"

definition search_in_db_channel :: "config \<Rightarrow> string \<Rightarrow> world \<Rightarrow> pydict option \<times> world" where
  "search_in_db_channel cfg video_id w0 =
     (let w = log_event (SearchDb video_id) w0 in
      case channel_cache w video_id of
        Some (cached_info, timestamp) \<Rightarrow>
          (case time_time w of
             (now, w') \<Rightarrow>
               if now - timestamp < CACHE_TTL then (Some cached_info, w')
               else remote_search cfg video_id w')
      | None \<Rightarrow> remote_search cfg video_id w)"

definition get_file_download_url :: "config \<Rightarrow> jval \<Rightarrow> world \<Rightarrow> string option \<times> world" where
  "get_file_download_url cfg fid w =
     (case http_request (HttpGet (base_url cfg @ ''/getFile'') [(''file_id'', fid)]) w of
        (HttpTimeout, w') \<Rightarrow> (None, w')
      | (HttpFails e, w') \<Rightarrow> (None, w')
      | (HttpResponse status body, w') \<Rightarrow>
          if status = 200 then
            (case body of
               NotJson e \<Rightarrow> (None, w')
             | Json data \<Rightarrow>
                 if body_ok data then
                   (case result_file_path data of
                      None \<Rightarrow> (None, w')
                    | Some fp \<Rightarrow>
                        (Some (''https://api.telegram.org/file/bot'' @ TELEGRAM_BOT_TOKEN cfg @ ''/'' @ fp), w'))
                 else (None, w'))
          else (None, w'))"

section \<open>main.py: LocalDownloadManager and DownloadManager\<close>

definition local_download_media :: "config \<Rightarrow> string \<Rightarrow> string \<Rightarrow> world \<Rightarrow> pydict \<times> world" where
  "local_download_media cfg video_id media_type w =
     (if \<not> downloader_available cfg then (error_result ''Local downloader not available'', w)
      else
        (case download video_id media_type w of
           (Inr file_path, w') \<Rightarrow>
             if file_path \<noteq> [] \<and> path_exists file_path w'
             then ([(''status'', JStr ''success''), (''file_path'', JStr file_path),
                    (''video_id'', JStr video_id), (''media_type'', JStr media_type)], w')
             else (error_result ''Local download failed - file not found'', w')
         | (Inl e, w') \<Rightarrow> (error_result (''Local download error: '' @ exn_message e), w')))"

definition make_full_link :: "config \<Rightarrow> string \<Rightarrow> string \<Rightarrow> string \<Rightarrow> string" where
  "make_full_link cfg request path video_id =
     rstrip_slash request @ path @ ''/'' @ video_id @ ''?api='' @ API_KEY cfg"

text \<open>
  \<open>DownloadManager.download_media\<close>. The request is its base URL, \<open>None\<close> when the caller
  passes none. The dictionary returned when both sources fail carries the message of the
  local result.
\<close>

definition all_failed :: "pydict \<Rightarrow> pydict" where
  "all_failed local_result =
     [(''status'', JStr ''error''),
      (''message'', (case dict_get local_result ''message'' of
                       Some m \<Rightarrow> m
                     | None \<Rightarrow> JStr ''Download failed from all sources''))]"

definition download_media :: "config \<Rightarrow> string \<Rightarrow> string \<Rightarrow> string option \<Rightarrow> world
    \<Rightarrow> (exn + pydict) \<times> world" where
  "download_media cfg video_id media_type request w =
     (case local_download_media cfg video_id media_type w of
        (local_result, w1) \<Rightarrow>
          if dict_get local_result ''status'' = Some (JStr ''success'') then
            (case dict_get local_result ''file_path'' of
               None \<Rightarrow> (Inl (KeyError ''file_path''), w1)
             | Some file_path \<Rightarrow>
                 (let download_url =
                        (case request of
                           Some r \<Rightarrow> make_full_link cfg r ''/file'' video_id
                         | None \<Rightarrow> ''/file/'' @ video_id @ ''?api='' @ API_KEY cfg @ ''&type='' @ media_type)
                  in (Inr [(''status'', JStr ''success''), (''type'', JStr ''local_file''),
                           (''link'', JStr download_url), (''file_path'', file_path),
                           (''video_id'', JStr video_id), (''source'', JStr ''local_downloader'')], w1)))
          else if has_telegram_db cfg then
            (case search_in_db_channel cfg video_id w1 of
               (Some db_file, w2) \<Rightarrow>
                 if db_file \<noteq> [] then
                   (case dict_get db_file ''file_id'' of
                      None \<Rightarrow> (Inl (KeyError ''file_id''), w2)
                    | Some fid \<Rightarrow>
                        (case get_file_download_url cfg fid w2 of
                           (Some file_url, w3) \<Rightarrow>
                             (Inr [(''status'', JStr ''success''), (''type'', JStr ''db_channel''),
                                   (''link'', JStr file_url), (''video_id'', JStr video_id),
                                   (''file_info'', JDict db_file), (''source'', JStr ''telegram_db'')], w3)
                         | (None, w3) \<Rightarrow> (Inr (all_failed local_result), w3)))
                 else (Inr (all_failed local_result), w2)
             | (None, w2) \<Rightarrow> (Inr (all_failed local_result), w2))
          else (Inr (all_failed local_result), w1))"

text \<open>A write into \<open>background_upload_tasks\<close>.\<close>

definition set_task :: "string \<Rightarrow> string \<Rightarrow> pydict \<Rightarrow> world \<Rightarrow> world" where
  "set_task task_id status rest w =
     log_event (SetTask task_id status)
       (w\<lparr>background_upload_tasks :=
            (background_upload_tasks w)(task_id \<mapsto> (''status'', JStr status) # rest)\<rparr>)"

text \<open>
  \<open>upload_to_telegram_background\<close>. \<open>upload_file\<close> catches every exception and always returns
  a dictionary with a status, so the \<open>except\<close> clause that writes the status \<open>error\<close> has no
  exception to catch and has no branch here. The caption starts with a musical note
  (four bytes in UTF-8).
\<close>

definition upload_to_telegram_background :: "config \<Rightarrow> string \<Rightarrow> string \<Rightarrow> string \<Rightarrow> world
    \<Rightarrow> world" where
  "upload_to_telegram_background cfg video_id media_type file_path w =
     (if \<not> has_telegram_uploader cfg then w
      else
        (let task_id = video_id @ ''_'' @ media_type in
         case time_time w of
           (start_time, w1) \<Rightarrow>
             (let w2 = set_task task_id ''uploading'' [(''start_time'', JReal start_time)] w1;
                  caption = [CHR 0xF0, CHR 0x9F, CHR 0x8E, CHR 0xB5] @ '' '' @ str_title media_type
                            @ '' Download'' @ [CHR 0x0A] @ ''Video ID: '' @ video_id
              in case upload_file cfg file_path video_id media_type caption w2 of
                   (upload_result, w3) \<Rightarrow>
                     (case time_time w3 of
                        (completed_time, w4) \<Rightarrow>
                          if dict_get upload_result ''status'' = Some (JStr ''success'')
                          then set_task task_id ''completed''
                                 [(''result'', JDict upload_result),
                                  (''completed_time'', JReal completed_time)] w4
                          else set_task task_id ''failed''
                                 [(''result'', JDict upload_result),
                                  (''completed_time'', JReal completed_time)] w4))))"

section \<open>main.py: the endpoint \<open>/song/{video_id}\<close>\<close>

datatype reply =
    JSONResponse nat pydict
  | HTTPException nat string

text \<open>
  \<open>song\<close> returns its reply and the background tasks it added, each the arguments of
  \<open>upload_to_telegram_background\<close>; the framework runs them after the reply is sent, which is
  \<open>serve_song\<close>.
\<close>

definition song :: "config \<Rightarrow> string \<Rightarrow> string \<Rightarrow> string \<Rightarrow> bool \<Rightarrow> world
    \<Rightarrow> reply \<times> (string \<times> string \<times> string) list \<times> world" where
  "song cfg video_id request api upload w =
     (if api \<noteq> API_KEY cfg then (HTTPException 403 ''Invalid API Key'', [], w)
      else
        (case download_media cfg video_id ''audio'' (Some request) w of
           (Inl e, w') \<Rightarrow>
             (JSONResponse 500 [(''status'', JStr ''error''), (''message'', JStr (exn_message e))], [], w')
         | (Inr download_info, w') \<Rightarrow>
             if dict_get download_info ''status'' = Some (JStr ''success'') then
               (case dict_get download_info ''link'' of
                  None \<Rightarrow>
                    (JSONResponse 500 [(''status'', JStr ''error''),
                                       (''message'', JStr (exn_message (KeyError ''link'')))], [], w')
                | Some link \<Rightarrow>
                    (let response_data =
                           [(''status'', JStr ''done''),
                            (''link'', link),
                            (''type'', (case dict_get download_info ''type'' of
                                          Some t \<Rightarrow> t | None \<Rightarrow> JStr ''stream'')),
                            (''video_id'', JStr video_id),
                            (''source'', (case dict_get download_info ''source'' of
                                            Some t \<Rightarrow> t | None \<Rightarrow> JStr ''unknown''))]
                     in case dict_get download_info ''file_path'' of
                          Some (JStr file_path) \<Rightarrow>
                            if upload \<and> dict_get download_info ''source'' = Some (JStr ''local_downloader'')
                            then (JSONResponse 200
                                    (response_data @ [(''background_upload'', JStr ''started''),
                                                      (''upload_task_id'', JStr (video_id @ ''_audio''))]),
                                  [(video_id, ''audio'', file_path)], w')
                            else (JSONResponse 200 response_data, [], w')
                        | _ \<Rightarrow> (JSONResponse 200 response_data, [], w')))
             else
               (JSONResponse 500
                  [(''status'', JStr ''error''),
                   (''message'', (case dict_get download_info ''message'' of
                                    Some m \<Rightarrow> m | None \<Rightarrow> JStr ''Download failed''))], [], w')))"

fun reply_body :: "reply \<Rightarrow> pydict" where
  "reply_body (JSONResponse code body) = body"
| "reply_body (HTTPException code detail) = [(''detail'', JStr detail)]"

fun run_background_tasks :: "config \<Rightarrow> (string \<times> string \<times> string) list \<Rightarrow> world \<Rightarrow> world" where
  "run_background_tasks cfg [] w = w"
| "run_background_tasks cfg ((video_id, media_type, file_path) # rest) w =
     run_background_tasks cfg rest (upload_to_telegram_background cfg video_id media_type file_path w)"

definition serve_song :: "config \<Rightarrow> string \<Rightarrow> string \<Rightarrow> string \<Rightarrow> bool \<Rightarrow> world \<Rightarrow> reply \<times> world" where
  "serve_song cfg video_id request api upload w =
     (case song cfg video_id request api upload w of
        (r, tasks, w') \<Rightarrow> (r, run_background_tasks cfg tasks w'))"

section \<open>Concrete worlds\<close>

text \<open>
  A fetch tool whose first invocation fails with the text yt-dlp prints for a format that
  does not exist, and whose later invocations write a file of 40 MB.
\<close>

definition ex_msg :: string where
  "ex_msg = ''ERROR: [youtube] abc123: Requested format is not available. Use --list-formats for a list of available formats''"

definition ydl_fail_then_ok :: "nat \<Rightarrow> ydl_outcome" where
  "ydl_fail_then_ok k =
     (if k = 0 then \<lparr>ydl_file = Keep, ydl_raises = Some ex_msg\<rparr>
      else \<lparr>ydl_file = Wrote 41943040, ydl_raises = None\<rparr>)"

definition world0 :: world where
  "world0 = \<lparr>files = Map.empty, trace = [], ydl_tool = ydl_fail_then_ok, ydl_calls = 0,
              ffmpeg_tool = (\<lambda>k. \<lparr>ff_spawn_fails = False, ff_returncode = 1, ff_file = Keep\<rparr>),
              ffmpeg_calls = 0,
              http_server = (\<lambda>k. HttpTimeout), http_calls = 0,
              temp_names = (\<lambda>k. ''/tmp/tmp0''), temps_made = 0,
              clock = (\<lambda>k. 1000 + real k), clock_reads = 0,
              channel_cache = Map.empty, background_upload_tasks = Map.empty\<rparr>"

text \<open>
  A fetch tool that finds no format in the first tier, is rate-limited at the first attempt
  of the second tier and finds no format at its second attempt, and writes the file at the
  first attempt of the third tier.
\<close>

definition ex_rate_limited :: string where
  "ex_rate_limited = ''ERROR: Unable to download webpage: HTTP Error 429: Too Many Requests''"

definition ydl_third_tier :: "nat \<Rightarrow> ydl_outcome" where
  "ydl_third_tier k =
     (if k = 0 then \<lparr>ydl_file = Keep, ydl_raises = Some ex_msg\<rparr>
      else if k = 1 then \<lparr>ydl_file = Keep, ydl_raises = Some ex_rate_limited\<rparr>
      else if k = 2 then \<lparr>ydl_file = Keep, ydl_raises = Some ex_msg\<rparr>
      else \<lparr>ydl_file = Wrote 41943040, ydl_raises = None\<rparr>)"

definition world_third_tier :: world where
  "world_third_tier = world0\<lparr>ydl_tool := ydl_third_tier\<rparr>"

text \<open>
  The three tiers for the audio artifact of \<open>abc123\<close> in that world, and the worlds the run
  of \<open>download\<close> passes through: when the first tier has been left, when the first attempt
  of the second tier has failed, when the second tier has been left, and at the end.
\<close>

definition ex_tier :: "string \<Rightarrow> pydict" where
  "ex_tier fmt = build_base_opts ''downloads/abc123.webm'' [(''format'', JStr fmt)] world_third_tier"

definition ex_url :: string where
  "ex_url = ''https://www.youtube.com/watch?v=abc123''"

definition world_tier1_left :: world where
  "world_tier1_left = world_third_tier
     \<lparr>ydl_calls := 1,
      trace := [RunYdl (ex_tier ''bestaudio[abr<=128]/bestaudio'') ex_url]\<rparr>"

definition world_tier2_retry :: world where
  "world_tier2_retry = world_third_tier
     \<lparr>ydl_calls := 2,
      trace := [RunYdl (ex_tier ''bestaudio[abr<=128]/bestaudio'') ex_url,
                RunYdl (ex_tier ''bestaudio/best'') ex_url]\<rparr>"

definition world_tier2_left :: world where
  "world_tier2_left = world_third_tier
     \<lparr>ydl_calls := 3,
      trace := [RunYdl (ex_tier ''bestaudio[abr<=128]/bestaudio'') ex_url,
                RunYdl (ex_tier ''bestaudio/best'') ex_url,
                Sleep 1,
                RunYdl (ex_tier ''bestaudio/best'') ex_url]\<rparr>"

definition world_tier3_done :: world where
  "world_tier3_done = world_third_tier
     \<lparr>ydl_calls := 4,
      trace := [RunYdl (ex_tier ''bestaudio[abr<=128]/bestaudio'') ex_url,
                RunYdl (ex_tier ''bestaudio/best'') ex_url,
                Sleep 1,
                RunYdl (ex_tier ''bestaudio/best'') ex_url,
                RunYdl (ex_tier ''worstaudio/worst'') ex_url],
      files := (files world_third_tier)(''downloads/abc123.webm'' \<mapsto> 41943040)\<rparr>"

text \<open>
  A configuration with a bot token, and a history page with one message whose caption
  names the identifier \<open>xyz\<close> and which carries an audio file.
\<close>

definition ex_cfg :: config where
  "ex_cfg = \<lparr>API_KEY = ''Shadow'', TELEGRAM_BOT_TOKEN = ''123:abc'',
              TELEGRAM_DB_CHANNEL = ''@shizuku_db'', TELEGRAM_UPLOAD_CHANNEL = ''@shizuku_db'',
              downloader_available = True\<rparr>"

definition ex_audio :: media where
  "ex_audio = \<lparr>m_file_id = Some ''F1'', m_file_size = Some 1000, m_duration = Some 60,
                m_mime_type = None, m_title = None, m_file_name = None\<rparr>"

definition ex_message :: message where
  "ex_message = \<lparr>msg_message_id = Some 7, msg_caption = Some ''Audio Download xyz'',
                  msg_text = None, msg_audio = Some ex_audio, msg_document = None,
                  msg_video = None\<rparr>"

definition ex_info :: pydict where
  "ex_info = [(''file_id'', JStr ''F1''), (''file_size'', JInt 1000), (''duration'', JInt 60),
              (''mime_type'', JStr ''audio/mpeg''), (''title'', JStr ''audio_xyz''),
              (''message_id'', JInt 7), (''media_type'', JStr ''audio'')]"

definition http_one_page :: "nat \<Rightarrow> http_outcome" where
  "http_one_page k =
     HttpResponse 200 (Json \<lparr>body_ok = True, result_messages = Some [ex_message],
                              result_message = None, result_file_path = None\<rparr>)"

text \<open>The clock of \<open>world0\<close> reads 1000 first. An entry stored at 1000 is fresh then, an
  entry stored 4000 seconds before is not.\<close>

definition world_fresh :: world where
  "world_fresh = world0\<lparr>channel_cache := [''xyz'' \<mapsto> (ex_info, 1000)]\<rparr>"

definition world_stale :: world where
  "world_stale = world0\<lparr>channel_cache := [''xyz'' \<mapsto> ([(''file_id'', JStr ''OLD'')], - 3000)],
                         http_server := http_one_page\<rparr>"

text \<open>
  An artifact of 60 MB, a transcoding tool that succeeds every time with an output of \<open>n\<close>
  bytes, and a messaging backend that answers every request with \<open>reply\<close>.
\<close>

definition ffmpeg_always :: "nat \<Rightarrow> nat \<Rightarrow> ffmpeg_outcome" where
  "ffmpeg_always n k = \<lparr>ff_spawn_fails = False, ff_returncode = 0, ff_file = Wrote n\<rparr>"

definition world_big :: "nat \<Rightarrow> http_outcome \<Rightarrow> world" where
  "world_big n reply =
     world0\<lparr>files := [''downloads/big.webm'' \<mapsto> 62914560],
            ffmpeg_tool := ffmpeg_always n,
            http_server := (\<lambda>k. reply)\<rparr>"

definition upload_ok :: http_outcome where
  "upload_ok = HttpResponse 200 (Json \<lparr>body_ok = True, result_messages = None,
                                        result_message = Some ex_message,
                                        result_file_path = None\<rparr>)"

definition upload_rejected :: http_outcome where
  "upload_rejected = HttpResponse 413 (NotJson ''Request Entity Too Large'')"

text \<open>A configuration without a bot token.\<close>

definition cfg_no_token :: config where
  "cfg_no_token = ex_cfg\<lparr>TELEGRAM_BOT_TOKEN := []\<rparr>"

text \<open>A fetch tool that fails every time, in a world whose cache has a fresh entry for
  \<open>xyz\<close> and whose messaging backend does not answer.\<close>

definition ydl_never :: "nat \<Rightarrow> ydl_outcome" where
  "ydl_never k = \<lparr>ydl_file = Keep, ydl_raises = Some ex_msg\<rparr>"

definition world_offline :: world where
  "world_offline = world_fresh\<lparr>ydl_tool := ydl_never\<rparr>"

section \<open>The primary acquisition engine\<close>

lemma retry_loop_Returned:
  "retry_loop base_opts url file_path sched w = (Returned p, w') \<Longrightarrow>
   p = file_path \<and> path_exists file_path w'"
  by (induction base_opts url file_path sched w rule: retry_loop.induct)
     (auto split: prod.splits sum.splits if_splits simp: Let_def)

lemma tier_loop_Inr:
  "tier_loop tries url file_path w = (Inr p, w') \<Longrightarrow>
   p = file_path \<and> path_exists file_path w'"
  by (induction tries url file_path w rule: tier_loop.induct)
     (auto split: prod.splits loop_exit.splits dest: retry_loop_Returned)

lemma canonical_audio: "canonical_path v ''audio'' = path_join DOWNLOAD_FOLDER (v @ ''.webm'')"
  by (simp add: canonical_path_def)

lemma canonical_video: "canonical_path v ''video'' = path_join DOWNLOAD_FOLDER (v @ ''.mp4'')"
  by (simp add: canonical_path_def)

lemma download_Inr:
  "download video_id type' w = (Inr p, w') \<Longrightarrow>
   p = canonical_path video_id type' \<and> path_exists p w'"
  unfolding download_def Let_def
  by (auto split: if_splits dest: tier_loop_Inr simp: canonical_audio canonical_video)

lemma download_existing:
  "type' = ''audio'' \<or> type' = ''video'' \<Longrightarrow>
   path_exists (canonical_path video_id type') w \<Longrightarrow>
   download video_id type' w = (Inr (canonical_path video_id type'), w)"
  unfolding download_def Let_def
  by (auto simp: canonical_audio canonical_video)

lemma run_ydl_trace: "trace (snd (run_ydl opts url w)) = trace w @ [RunYdl opts url]"
  by (simp add: run_ydl_def Let_def log_event_def apply_effect_def
      split: option.splits jval.splits file_effect.splits)

lemma run_ydl_calls: "ydl_calls (snd (run_ydl opts url w)) = ydl_calls w + 1"
  by (simp add: run_ydl_def Let_def log_event_def apply_effect_def
      split: option.splits jval.splits file_effect.splits)

lemma ex_msg_unavailable:
  "str_in ''requested format is not available'' (str_lower ex_msg)"
  by (simp add: ex_msg_def str_lower_def char_lower_def)

lemma ex_rate_limited_available:
  "\<not> str_in ''requested format is not available'' (str_lower ex_rate_limited)"
  by (simp add: ex_rate_limited_def str_lower_def char_lower_def)

lemmas eval_downloader =
  download_def Let_def path_join_def DOWNLOAD_FOLDER_def COOKIE_FILE_def path_exists_def
  audio_tries_def video_tries_def build_base_opts_def dict_update_def run_ydl_def sleep_for_def
  log_event_def apply_effect_def dict_get_def backoff_def watch_url_def endswith_def
  canonical_path_def ex_msg_unavailable
  world0_def ydl_fail_then_ok_def

text \<open>
  C9. For every identifier and every kind other than exactly \<open>audio\<close> or \<open>video\<close>,
  \<open>download\<close> raises \<open>ValueError("Invalid type")\<close> and the world is the one it started in:
  no tier list was built, nothing slept, the fetch tool was not invoked, no file changed.
\<close>

theorem download_invalid_type:
  "type' \<noteq> ''audio'' \<Longrightarrow> type' \<noteq> ''video'' \<Longrightarrow>
   download video_id type' w = (Inl (ValueError ''Invalid type''), w)"
  by (simp add: download_def)

theorem download_invalid_type_witness:
  "''Audio'' \<noteq> ''audio'' \<and> ''Audio'' \<noteq> ''video'' \<and>
   download ''abc123'' ''Audio'' world0 = (Inl (ValueError ''Invalid type''), world0)"
  using download_invalid_type [of "''Audio''" "''abc123''" world0] by simp

text \<open>
  C7. The engine is idempotent on the local file. For a kind in \<open>audio\<close>, \<open>video\<close>: when a
  file exists at the canonical path, \<open>download\<close> returns that path and the world unchanged
  (so the fetch tool was not invoked); and after a call that returned a path, a second call
  returns the same path and leaves the world as the first call left it.
\<close>

theorem download_idempotent:
  "type' = ''audio'' \<or> type' = ''video'' \<Longrightarrow>
   (path_exists (canonical_path video_id type') w \<longrightarrow>
      download video_id type' w = (Inr (canonical_path video_id type'), w))
   \<and> (\<forall>p w'. download video_id type' w = (Inr p, w') \<longrightarrow>
        download video_id type' w' = (Inr p, w'))"
proof (intro conjI impI allI)
  assume ty: "type' = ''audio'' \<or> type' = ''video''"
  { assume "path_exists (canonical_path video_id type') w"
    with ty show "download video_id type' w = (Inr (canonical_path video_id type'), w)"
      by (rule download_existing) }
  { fix p w'
    assume d: "download video_id type' w = (Inr p, w')"
    then have "p = canonical_path video_id type'"
      and "path_exists (canonical_path video_id type') w'"
      using download_Inr by blast+
    with ty show "download video_id type' w' = (Inr p, w')"
      using download_existing by simp }
qed

theorem download_idempotent_witness:
  "fst (download ''abc123'' ''audio'' world0) = Inr ''downloads/abc123.webm'' \<and>
   ydl_calls (snd (download ''abc123'' ''audio'' world0)) = 2 \<and>
   path_exists (canonical_path ''abc123'' ''audio'') (snd (download ''abc123'' ''audio'' world0)) \<and>
   download ''abc123'' ''audio'' (snd (download ''abc123'' ''audio'' world0)) =
     (Inr ''downloads/abc123.webm'', snd (download ''abc123'' ''audio'' world0))"
proof -
  let ?w1 = "snd (download ''abc123'' ''audio'' world0)"
  have r: "fst (download ''abc123'' ''audio'' world0) = Inr ''downloads/abc123.webm''"
    by (simp add: eval_downloader)
  have c: "ydl_calls ?w1 = 2"
    by (simp add: eval_downloader)
  have e: "path_exists (canonical_path ''abc123'' ''audio'') ?w1"
    by (simp add: eval_downloader)
  have d: "download ''abc123'' ''audio'' world0 = (Inr ''downloads/abc123.webm'', ?w1)"
    using r by (simp add: prod_eq_iff)
  have "download ''abc123'' ''audio'' ?w1 = (Inr ''downloads/abc123.webm'', ?w1)"
    using download_idempotent [of "''audio''" "''abc123''" world0] d by blast
  with r c e show ?thesis by blast
qed

text \<open>The two loops on a list that is split in two: the second part runs where the first
  part ended, unless the first part returned (or, for the inner loop, was left by \<open>break\<close>).\<close>

lemma retry_loop_append:
  "retry_loop base_opts url file_path (before @ sched) w =
     (case retry_loop base_opts url file_path before w of
        (Ended, w1) \<Rightarrow> retry_loop base_opts url file_path sched w1
      | (Returned p, w1) \<Rightarrow> (Returned p, w1)
      | (Broke, w1) \<Rightarrow> (Broke, w1))"
proof (induction base_opts url file_path before w rule: retry_loop.induct)
  case (1 base_opts url file_path w)
  show ?case by simp
next
  case (2 base_opts url file_path retry_no delay rest w)
  obtain o1 w1 where h: "run_ydl base_opts url (sleep_for delay w) = (o1, w1)"
    by (cases "run_ydl base_opts url (sleep_for delay w)")
  show ?case
    using "2.IH" h by (cases o1) (simp_all add: Let_def)
qed

lemma tier_loop_append:
  "tier_loop (before @ tries) url file_path w =
     (case tier_loop before url file_path w of
        (Inr p, w1) \<Rightarrow> (Inr p, w1)
      | (Inl e, w1) \<Rightarrow> tier_loop tries url file_path w1)"
proof (induction before url file_path w rule: tier_loop.induct)
  case (1 url file_path w)
  show ?case by simp
next
  case (2 base_opts before url file_path w)
  obtain x w1 where h: "retry_loop base_opts url file_path (enumerate 0 backoff) w = (x, w1)"
    by (cases "retry_loop base_opts url file_path (enumerate 0 backoff) w")
  show ?case
    using "2.IH" h by (cases x) simp_all
qed

lemma retry_loop_Ended_calls:
  "retry_loop base_opts url file_path sched w = (Ended, w') \<Longrightarrow>
   ydl_calls w' = ydl_calls w + length sched"
proof (induction base_opts url file_path sched w rule: retry_loop.induct)
  case (1 base_opts url file_path w)
  then show ?case by simp
next
  case (2 base_opts url file_path retry_no delay rest w)
  obtain o1 w1 where h: "run_ydl base_opts url (sleep_for delay w) = (o1, w1)"
    by (cases "run_ydl base_opts url (sleep_for delay w)")
  have c: "ydl_calls w1 = ydl_calls w + 1"
    using run_ydl_calls [of base_opts url "sleep_for delay w"] h
    by (simp add: sleep_for_def log_event_def)
  show ?case
    using "2.prems" "2.IH" h c
    by (cases o1) (auto simp: Let_def split: if_splits)
qed

text \<open>The trace only grows, and a tier starts with a fetch, without a sleep before it.\<close>

lemma retry_loop_trace:
  "\<exists>es. trace (snd (retry_loop base_opts url file_path sched w)) = trace w @ es"
proof (induction sched arbitrary: w)
  case Nil
  show ?case by simp
next
  case (Cons a rest)
  obtain retry_no delay where a: "a = (retry_no, delay)"
    by (cases a)
  obtain o1 w1 where h: "run_ydl base_opts url (sleep_for delay w) = (o1, w1)"
    by (cases "run_ydl base_opts url (sleep_for delay w)")
  have "trace w1 = trace (sleep_for delay w) @ [RunYdl base_opts url]"
    using run_ydl_trace [of base_opts url "sleep_for delay w"] h by simp
  then have "trace w1 = trace w @ (if 0 < delay then [Sleep delay] else [])
                          @ [RunYdl base_opts url]"
    by (simp add: sleep_for_def log_event_def)
  then obtain es1 where t: "trace w1 = trace w @ es1"
    by blast
  obtain es2 where
    "trace (snd (retry_loop base_opts url file_path rest w1)) = trace w1 @ es2"
    using Cons.IH by blast
  then have ih: "\<exists>es. trace (snd (retry_loop base_opts url file_path rest w1)) = trace w @ es"
    using t by simp
  show ?case
    using h t ih by (cases o1) (simp_all add: a Let_def)
qed

lemma tier_loop_trace:
  "\<exists>es. trace (snd (tier_loop tries url file_path w)) = trace w @ es"
proof (induction tries arbitrary: w)
  case Nil
  show ?case by simp
next
  case (Cons base_opts tries)
  obtain x w1 where h: "retry_loop base_opts url file_path (enumerate 0 backoff) w = (x, w1)"
    by (cases "retry_loop base_opts url file_path (enumerate 0 backoff) w")
  obtain es1 where t: "trace w1 = trace w @ es1"
    using retry_loop_trace [of base_opts url file_path "enumerate 0 backoff" w] h by auto
  obtain es2 where "trace (snd (tier_loop tries url file_path w1)) = trace w1 @ es2"
    using Cons.IH by blast
  then have ih: "\<exists>es. trace (snd (tier_loop tries url file_path w1)) = trace w @ es"
    using t by simp
  show ?case
    using h t ih by (cases x) simp_all
qed

lemma tier_loop_first_fetch:
  "\<exists>es. trace (snd (tier_loop (base_opts # tries) url file_path w)) =
         trace w @ RunYdl base_opts url # es"
proof -
  let ?rest = "enumerate 1 [1, 2, 4]"
  have en: "enumerate 0 backoff = (0, 0) # ?rest"
    by (simp add: backoff_def)
  obtain o1 w1 where h: "run_ydl base_opts url w = (o1, w1)"
    by (cases "run_ydl base_opts url w")
  have t1: "trace w1 = trace w @ [RunYdl base_opts url]"
    using run_ydl_trace [of base_opts url w] h by simp
  obtain x w2 where r: "retry_loop base_opts url file_path ((0, 0) # ?rest) w = (x, w2)"
    by (cases "retry_loop base_opts url file_path ((0, 0) # ?rest) w")
  have t2: "\<exists>es. trace w2 = trace w @ RunYdl base_opts url # es"
  proof -
    obtain es where "trace (snd (retry_loop base_opts url file_path ?rest w1)) = trace w1 @ es"
      using retry_loop_trace by blast
    then show ?thesis
      using r h t1 by (cases o1) (auto simp: Let_def sleep_for_def split: if_splits)
  qed
  then obtain es2 where t2': "trace w2 = trace w @ RunYdl base_opts url # es2"
    by blast
  obtain es3 where t3: "trace (snd (tier_loop tries url file_path w2)) = trace w2 @ es3"
    using tier_loop_trace by blast
  show ?thesis
    using r t2' t3 by (cases x) (simp_all add: en del: retry_loop.simps)
qed

text \<open>
  C3. Let \<open>download\<close> run for a kind in \<open>audio\<close>, \<open>video\<close> whose file is not there, with the
  tiers of that kind split as \<open>before @ base_opts # after\<close>. Let the tiers \<open>before\<close> have
  failed, leaving the world \<open>wi\<close>, and let the attempts of tier \<open>base_opts\<close> that precede
  place \<open>retry_no\<close> of the schedule have run, leaving the world \<open>wj\<close>. When the attempt at
  that place fails with an error whose lower-cased message contains
  \<open>requested format is not available\<close>, leaving \<open>w'\<close>, then \<open>download\<close> goes on from \<open>w'\<close>
  with the tiers \<open>after\<close>: the tier made no further attempt (the fetch tool was invoked once
  after \<open>wj\<close>, and as often in the tier as there are places up to this one), the rest of the
  schedule was not slept through, and the next effect is the first fetch of the next tier;
  with no tier left \<open>download\<close> raises. The path of the artifact is returned when the tiers
  that follow yield it, in particular when the first fetch of the next tier does.
\<close>

theorem format_unavailable_abandons_tier:
  assumes kind: "type' = ''audio'' \<and>
                   audio_tries (canonical_path video_id type') w = before @ base_opts # after
                 \<or> type' = ''video'' \<and>
                   video_tries (canonical_path video_id type') w = before @ base_opts # after"
      and absent: "\<not> path_exists (canonical_path video_id type') w"
      and tiers_before:
        "tier_loop before (watch_url video_id) (canonical_path video_id type') w = (Inl e, wi)"
      and place: "enumerate 0 backoff = earlier @ (retry_no, delay) # rest"
      and attempts_before:
        "retry_loop base_opts (watch_url video_id) (canonical_path video_id type') earlier wi =
           (Ended, wj)"
      and fails: "run_ydl base_opts (watch_url video_id) (sleep_for delay wj) = (Inl msg, w')"
      and unavailable: "str_in ''requested format is not available'' (str_lower msg)"
  shows "download video_id type' w =
           tier_loop after (watch_url video_id) (canonical_path video_id type') w'
       \<and> trace w' = trace wj @ (if delay \<noteq> 0 then [Sleep delay] else [])
                              @ [RunYdl base_opts (watch_url video_id)]
       \<and> ydl_calls w' = ydl_calls wj + 1
       \<and> ydl_calls w' = ydl_calls wi + length earlier + 1
       \<and> (after = [] \<longrightarrow>
            download video_id type' w = (Inl (RuntimeError ''attempts failed''), w'))
       \<and> (\<forall>next later. after = next # later \<longrightarrow>
            (\<exists>es. trace (snd (download video_id type' w)) =
                    trace w' @ RunYdl next (watch_url video_id) # es))
       \<and> (\<forall>next later w''. after = next # later
              \<and> run_ydl next (watch_url video_id) w' = (Inr (), w'')
              \<and> path_exists (canonical_path video_id type') w'' \<longrightarrow>
            download video_id type' w = (Inr (canonical_path video_id type'), w''))
       \<and> (\<forall>p w''. tier_loop after (watch_url video_id) (canonical_path video_id type') w' =
                     (Inr p, w'') \<longrightarrow>
            download video_id type' w = (Inr (canonical_path video_id type'), w''))"
proof -
  let ?url = "watch_url video_id"
  let ?fp = "canonical_path video_id type'"
  have d0: "download video_id type' w = tier_loop (before @ base_opts # after) ?url ?fp w"
    using kind absent
    by (auto simp: download_def Let_def canonical_audio canonical_video)
  have a: "retry_loop base_opts ?url ?fp ((retry_no, delay) # rest) wj = (Broke, w')"
    using fails unavailable by simp
  have b: "retry_loop base_opts ?url ?fp (enumerate 0 backoff) wi = (Broke, w')"
    using attempts_before a by (simp add: place retry_loop_append del: retry_loop.simps)
  have c: "tier_loop (base_opts # after) ?url ?fp wi = tier_loop after ?url ?fp w'"
    using b by simp
  have d: "download video_id type' w = tier_loop after ?url ?fp w'"
    using d0 tiers_before c by (simp add: tier_loop_append del: tier_loop.simps)
  have w': "w' = snd (run_ydl base_opts ?url (sleep_for delay wj))"
    using fails by simp
  have tr: "trace w' = trace wj @ (if delay \<noteq> 0 then [Sleep delay] else [])
                         @ [RunYdl base_opts ?url]"
    by (simp add: w' run_ydl_trace sleep_for_def log_event_def)
  have c1: "ydl_calls w' = ydl_calls wj + 1"
    by (simp add: w' run_ydl_calls sleep_for_def log_event_def)
  have c2: "ydl_calls w' = ydl_calls wi + length earlier + 1"
    using c1 retry_loop_Ended_calls [OF attempts_before] by simp
  have e0: "after = [] \<longrightarrow>
            download video_id type' w = (Inl (RuntimeError ''attempts failed''), w')"
    using d by simp
  have e1: "\<forall>next later. after = next # later \<longrightarrow>
            (\<exists>es. trace (snd (download video_id type' w)) = trace w' @ RunYdl next ?url # es)"
    using d tier_loop_first_fetch by simp
  have e3: "\<forall>p w''. tier_loop after ?url ?fp w' = (Inr p, w'') \<longrightarrow>
            download video_id type' w = (Inr ?fp, w'')"
    using d tier_loop_Inr by fastforce
  have e2: "\<forall>next later w''. after = next # later
              \<and> run_ydl next ?url w' = (Inr (), w'') \<and> path_exists ?fp w'' \<longrightarrow>
            download video_id type' w = (Inr ?fp, w'')"
    using d by (auto simp: backoff_def sleep_for_def)
  show ?thesis
    using d tr c1 c2 e0 e1 e2 e3 by blast
qed

lemma canonical_abc123:
  "path_join DOWNLOAD_FOLDER ''abc123.webm'' = ''downloads/abc123.webm''"
  by (simp add: path_join_def DOWNLOAD_FOLDER_def endswith_def)

lemma outtmpl_build_base_opts:
  "dict_get (build_base_opts outtmpl [(''format'', v)] w) ''outtmpl'' = Some (JStr outtmpl)"
  by (simp add: build_base_opts_def dict_update_def dict_get_def Let_def)

lemma run_ydl_outcome:
  assumes "dict_get opts ''outtmpl'' = Some (JStr p)"
      and "ydl_tool w (ydl_calls w) = \<lparr>ydl_file = e, ydl_raises = r\<rparr>"
  shows "run_ydl opts url w =
         (case r of Some msg \<Rightarrow> Inl msg | None \<Rightarrow> Inr (),
          apply_effect p e (w\<lparr>ydl_calls := ydl_calls w + 1, trace := trace w @ [RunYdl opts url]\<rparr>))"
  using assms by (simp add: run_ydl_def Let_def log_event_def)

lemma world_third_tier_fields:
  "ydl_calls world_third_tier = 0"
  "trace world_third_tier = []"
  "ydl_tool world_third_tier = ydl_third_tier"
  "files world_third_tier = Map.empty"
  by (simp_all add: world_third_tier_def world0_def)

lemma outtmpl_ex_tier: "dict_get (ex_tier fmt) ''outtmpl'' = Some (JStr ''downloads/abc123.webm'')"
  by (simp add: ex_tier_def outtmpl_build_base_opts)

lemma canonical_abc123_audio: "canonical_path ''abc123'' ''audio'' = ''downloads/abc123.webm''"
  by (simp add: canonical_path_def canonical_abc123)

lemma watch_url_abc123: "watch_url ''abc123'' = ex_url"
  by (simp add: watch_url_def ex_url_def)

lemma third_tier_run:
  "run_ydl (ex_tier ''bestaudio[abr<=128]/bestaudio'') ex_url world_third_tier =
     (Inl ex_msg, world_tier1_left)"
  "run_ydl (ex_tier ''bestaudio/best'') ex_url world_tier1_left =
     (Inl ex_rate_limited, world_tier2_retry)"
  "run_ydl (ex_tier ''bestaudio/best'') ex_url (sleep_for 1 world_tier2_retry) =
     (Inl ex_msg, world_tier2_left)"
  "run_ydl (ex_tier ''worstaudio/worst'') ex_url world_tier2_left =
     (Inr (), world_tier3_done)"
proof -
  show "run_ydl (ex_tier ''bestaudio[abr<=128]/bestaudio'') ex_url world_third_tier =
     (Inl ex_msg, world_tier1_left)"
    by (simp add: run_ydl_outcome [OF outtmpl_ex_tier, where e = Keep and r = "Some ex_msg"]
        world_third_tier_fields ydl_third_tier_def world_tier1_left_def apply_effect_def)
  show "run_ydl (ex_tier ''bestaudio/best'') ex_url world_tier1_left =
     (Inl ex_rate_limited, world_tier2_retry)"
    by (simp add: run_ydl_outcome [OF outtmpl_ex_tier, where e = Keep and r = "Some ex_rate_limited"]
        world_third_tier_fields ydl_third_tier_def world_tier1_left_def world_tier2_retry_def
        apply_effect_def)
  show "run_ydl (ex_tier ''bestaudio/best'') ex_url (sleep_for 1 world_tier2_retry) =
     (Inl ex_msg, world_tier2_left)"
    by (simp add: run_ydl_outcome [OF outtmpl_ex_tier, where e = Keep and r = "Some ex_msg"]
        world_third_tier_fields ydl_third_tier_def world_tier2_retry_def world_tier2_left_def
        apply_effect_def sleep_for_def log_event_def)
  show "run_ydl (ex_tier ''worstaudio/worst'') ex_url world_tier2_left =
     (Inr (), world_tier3_done)"
    by (simp add: run_ydl_outcome [OF outtmpl_ex_tier, where e = "Wrote 41943040" and r = None]
        world_third_tier_fields ydl_third_tier_def world_tier2_left_def world_tier3_done_def
        apply_effect_def)
qed

theorem format_unavailable_abandons_tier_witness:
  "audio_tries (canonical_path ''abc123'' ''audio'') world_third_tier =
     [ex_tier ''bestaudio[abr<=128]/bestaudio'', ex_tier ''bestaudio/best'',
      ex_tier ''worstaudio/worst'']
   \<and> \<not> path_exists (canonical_path ''abc123'' ''audio'') world_third_tier
   \<and> tier_loop [ex_tier ''bestaudio[abr<=128]/bestaudio''] (watch_url ''abc123'')
        (canonical_path ''abc123'' ''audio'') world_third_tier =
       (Inl (RuntimeError ''attempts failed''), world_tier1_left)
   \<and> enumerate 0 backoff = [(0, 0), (1, 1), (2, 2), (3, 4)]
   \<and> retry_loop (ex_tier ''bestaudio/best'') (watch_url ''abc123'')
        (canonical_path ''abc123'' ''audio'') [(0, 0)] world_tier1_left =
       (Ended, world_tier2_retry)
   \<and> run_ydl (ex_tier ''bestaudio/best'') (watch_url ''abc123'') (sleep_for 1 world_tier2_retry) =
       (Inl ex_msg, world_tier2_left)
   \<and> str_in ''requested format is not available'' (str_lower ex_msg)
   \<and> download ''abc123'' ''audio'' world_third_tier =
       (Inr ''downloads/abc123.webm'', world_tier3_done)
   \<and> ydl_calls world_tier2_left = ydl_calls world_tier1_left + 2
   \<and> trace world_tier3_done =
       trace world_tier2_retry @
         [Sleep 1, RunYdl (ex_tier ''bestaudio/best'') ex_url,
          RunYdl (ex_tier ''worstaudio/worst'') ex_url]"
proof -
  let ?A = "ex_tier ''bestaudio[abr<=128]/bestaudio''"
  let ?B = "ex_tier ''bestaudio/best''"
  let ?C = "ex_tier ''worstaudio/worst''"
  let ?fp = "canonical_path ''abc123'' ''audio''"
  let ?url = "watch_url ''abc123''"
  have tries: "audio_tries ?fp world_third_tier = [?A, ?B, ?C]"
    by (simp add: audio_tries_def ex_tier_def canonical_abc123_audio)
  have absent: "\<not> path_exists ?fp world_third_tier"
    by (simp add: path_exists_def canonical_abc123_audio world_third_tier_fields)
  have en: "enumerate 0 backoff = [(0, 0), (1, 1), (2, 2), (3, 4)]"
    by (simp add: backoff_def)
  have s0: "sleep_for 0 w = w" for w
    by (simp add: sleep_for_def)
  have t1: "tier_loop [?A] ?url ?fp world_third_tier =
            (Inl (RuntimeError ''attempts failed''), world_tier1_left)"
    by (simp add: en watch_url_abc123 s0 third_tier_run ex_msg_unavailable)
  have a0: "retry_loop ?B ?url ?fp [(0, 0)] world_tier1_left = (Ended, world_tier2_retry)"
    by (simp add: watch_url_abc123 s0 third_tier_run ex_rate_limited_available backoff_def)
  have f: "run_ydl ?B ?url (sleep_for 1 world_tier2_retry) = (Inl ex_msg, world_tier2_left)"
    unfolding watch_url_abc123 by (rule third_tier_run(3))
  have ex: "path_exists ?fp world_tier3_done"
    by (simp add: path_exists_def canonical_abc123_audio world_tier3_done_def)
  have last: "run_ydl ?C ?url world_tier2_left = (Inr (), world_tier3_done)"
    by (simp add: watch_url_abc123 third_tier_run)
  note t = format_unavailable_abandons_tier [where video_id = "''abc123''" and type' = "''audio''"
      and w = world_third_tier and before = "[?A]" and base_opts = ?B and after = "[?C]"
      and e = "RuntimeError ''attempts failed''" and wi = world_tier1_left
      and earlier = "[(0, 0)]" and retry_no = 1 and delay = 1 and rest = "[(2, 2), (3, 4)]"
      and wj = world_tier2_retry and msg = ex_msg and w' = world_tier2_left]
  have hyps: "''audio'' = ''audio'' \<and> audio_tries ?fp world_third_tier = [?A] @ ?B # [?C]
              \<or> ''audio'' = ''video'' \<and> video_tries ?fp world_third_tier = [?A] @ ?B # [?C]"
    using tries by simp
  have en': "enumerate 0 backoff = [(0, 0)] @ (1, 1) # [(2, 2), (3, 4)]"
    using en by simp
  note t' = t [OF hyps absent t1 en' a0 f ex_msg_unavailable]
  have d: "download ''abc123'' ''audio'' world_third_tier = (Inr ?fp, world_tier3_done)"
    using t' last ex by blast
  have c: "ydl_calls world_tier2_left = ydl_calls world_tier1_left + 2"
    using t' by simp
  have tr: "trace world_tier3_done =
       trace world_tier2_retry @ [Sleep 1, RunYdl ?B ex_url, RunYdl ?C ex_url]"
    by (simp add: world_tier3_done_def world_tier2_retry_def)
  show ?thesis
    using tries absent t1 en a0 f ex_msg_unavailable d c tr
    by (simp add: canonical_abc123_audio)
qed

section \<open>The secondary directory search and its cache\<close>

lemma http_request_cache [simp]: "channel_cache (snd (http_request e w)) = channel_cache w"
  by (simp add: http_request_def log_event_def)

lemma http_request_trace [simp]: "trace (snd (http_request e w)) = trace w @ [e]"
  by (simp add: http_request_def log_event_def)

lemma http_request_calls [simp]: "http_calls (snd (http_request e w)) = http_calls w + 1"
  by (simp add: http_request_def log_event_def)

lemma deep_pages_cache:
  "channel_cache (snd (deep_pages n cfg video_id offset_id w)) = channel_cache w"
proof (induction n arbitrary: offset_id w)
  case 0
  then show ?case by simp
next
  case (Suc n)
  obtain r w' where h: "http_request (history_request cfg [(''offset_id'', JInt offset_id)]) w = (r, w')"
    by (cases "http_request (history_request cfg [(''offset_id'', JInt offset_id)]) w")
  then have c: "channel_cache w' = channel_cache w"
    using http_request_cache by (metis snd_conv)
  show ?case
    using h c Suc.IH
    by (simp split: http_outcome.splits http_body.splits option.splits)
qed

lemma deep_search_channel_cache:
  "channel_cache (snd (deep_search_channel cfg video_id w)) = channel_cache w"
  using deep_pages_cache [of "500 div 100" cfg video_id 0 w]
  by (auto simp: deep_search_channel_def split: prod.splits sum.splits)

lemma cache_store_cache:
  "channel_cache (cache_store video_id info w) =
   (channel_cache w)(video_id \<mapsto> (info, clock w (clock_reads w)))"
  by (simp add: cache_store_def time_time_def)

lemma http_request_cacheD:
  "http_request e w = (r, w') \<Longrightarrow> channel_cache w' = channel_cache w"
  by (auto simp: http_request_def log_event_def)

lemma deep_search_channel_cacheD:
  "deep_search_channel cfg video_id w = (r, w') \<Longrightarrow> channel_cache w' = channel_cache w"
  using deep_search_channel_cache [of cfg video_id w] by simp

lemma remote_search_None:
  assumes a: "remote_search cfg video_id w = (None, w')"
  shows "channel_cache w' = channel_cache w"
proof -
  obtain o1 w1 where h: "http_request (history_request cfg []) w = (o1, w1)"
    by (cases "http_request (history_request cfg []) w")
  have c1: "channel_cache w1 = channel_cache w"
    using h by (rule http_request_cacheD)
  obtain d w2 where ds: "deep_search_channel cfg video_id w1 = (d, w2)"
    by (cases "deep_search_channel cfg video_id w1")
  have c2: "channel_cache w2 = channel_cache w"
    using deep_search_channel_cacheD [OF ds] c1 by simp
  show ?thesis
    using a h c1 ds c2
    by (simp add: remote_search_def split: option.splits sum.splits)
qed

lemma search_in_db_channel_hit:
  assumes "channel_cache w video_id = Some (info, t)"
      and "clock w (clock_reads w) - t < CACHE_TTL"
  shows "search_in_db_channel cfg video_id w =
         (Some info, w\<lparr>trace := trace w @ [SearchDb video_id], clock_reads := clock_reads w + 1\<rparr>)"
  using assms by (simp add: search_in_db_channel_def Let_def log_event_def time_time_def)

lemma search_in_db_channel_stale:
  assumes "channel_cache w video_id = Some (info, t)"
      and "\<not> clock w (clock_reads w) - t < CACHE_TTL"
  shows "search_in_db_channel cfg video_id w =
         remote_search cfg video_id
           (w\<lparr>trace := trace w @ [SearchDb video_id], clock_reads := clock_reads w + 1\<rparr>)"
  using assms by (simp add: search_in_db_channel_def Let_def log_event_def time_time_def)

lemma search_in_db_channel_absent:
  assumes "channel_cache w video_id = None"
  shows "search_in_db_channel cfg video_id w =
         remote_search cfg video_id (w\<lparr>trace := trace w @ [SearchDb video_id]\<rparr>)"
  using assms by (simp add: search_in_db_channel_def Let_def log_event_def)

lemma search_in_db_channel_None:
  assumes a: "search_in_db_channel cfg video_id w = (None, w')"
  shows "channel_cache w' = channel_cache w"
proof (cases "channel_cache w video_id")
  case None
  from a search_in_db_channel_absent [OF None, of cfg]
  have "remote_search cfg video_id (w\<lparr>trace := trace w @ [SearchDb video_id]\<rparr>) = (None, w')"
    by simp
  from remote_search_None [OF this] show ?thesis by simp
next
  case (Some e)
  obtain info t where e: "channel_cache w video_id = Some (info, t)"
    using Some by (cases e) simp
  show ?thesis
  proof (cases "clock w (clock_reads w) - t < CACHE_TTL")
    case True
    from a search_in_db_channel_hit [OF e True, of cfg] show ?thesis by simp
  next
    case False
    from a search_in_db_channel_stale [OF e False, of cfg]
    have "remote_search cfg video_id
           (w\<lparr>trace := trace w @ [SearchDb video_id], clock_reads := clock_reads w + 1\<rparr>) = (None, w')"
      by simp
    from remote_search_None [OF this] show ?thesis by simp
  qed
qed

lemma http_request_eq:
  "http_request e w =
   (http_server w (http_calls w), w\<lparr>http_calls := http_calls w + 1, trace := trace w @ [e]\<rparr>)"
  by (simp add: http_request_def log_event_def)

lemma deep_pages_agree:
  assumes "http_server w = http_server v" and "http_calls w = http_calls v"
  shows "fst (deep_pages n cfg video_id offset_id w) = fst (deep_pages n cfg video_id offset_id v)"
  using assms
proof (induction n arbitrary: offset_id w v)
  case 0
  then show ?case by simp
next
  case (Suc n)
  let ?e = "history_request cfg [(''offset_id'', JInt offset_id)]"
  let ?w1 = "w\<lparr>http_calls := http_calls w + 1, trace := trace w @ [?e]\<rparr>"
  let ?v1 = "v\<lparr>http_calls := http_calls v + 1, trace := trace v @ [?e]\<rparr>"
  have ih: "fst (deep_pages n cfg video_id k ?w1) = fst (deep_pages n cfg video_id k ?v1)" for k
    using Suc.prems by (intro Suc.IH) simp_all
  show ?case
    using Suc.prems ih
    by (simp add: http_request_eq split: http_outcome.splits http_body.splits option.splits)
qed

lemma deep_search_channel_agree:
  assumes "http_server w = http_server v" and "http_calls w = http_calls v"
  shows "fst (deep_search_channel cfg video_id w) = fst (deep_search_channel cfg video_id v)"
  using deep_pages_agree [OF assms, of "500 div 100" cfg video_id 0]
  by (auto simp: deep_search_channel_def split: prod.splits sum.splits)

lemma remote_search_agree:
  assumes "http_server w = http_server v" and "http_calls w = http_calls v"
  shows "fst (remote_search cfg video_id w) = fst (remote_search cfg video_id v)"
proof -
  let ?e = "history_request cfg []"
  let ?w1 = "w\<lparr>http_calls := http_calls w + 1, trace := trace w @ [?e]\<rparr>"
  let ?v1 = "v\<lparr>http_calls := http_calls v + 1, trace := trace v @ [?e]\<rparr>"
  have d: "fst (deep_search_channel cfg video_id ?w1) = fst (deep_search_channel cfg video_id ?v1)"
    using assms by (intro deep_search_channel_agree) simp_all
  show ?thesis
    using assms d
    by (auto simp: remote_search_def http_request_eq split: sum.splits option.splits prod.splits)
qed

lemma deep_pages_trace:
  "\<exists>es. trace (snd (deep_pages n cfg video_id offset_id w)) = trace w @ es"
proof (induction n arbitrary: offset_id w)
  case 0
  then show ?case by simp
next
  case (Suc n)
  let ?e = "history_request cfg [(''offset_id'', JInt offset_id)]"
  let ?w1 = "w\<lparr>http_calls := http_calls w + 1, trace := trace w @ [?e]\<rparr>"
  have ih: "\<exists>es. trace (snd (deep_pages n cfg video_id k ?w1)) = trace w @ es" for k
    using Suc.IH [of k ?w1] by auto
  show ?case
    using ih
    by (simp add: http_request_eq split: http_outcome.splits http_body.splits option.splits)
qed

lemma deep_search_channel_trace:
  "\<exists>es. trace (snd (deep_search_channel cfg video_id w)) = trace w @ es"
  using deep_pages_trace [of "500 div 100" cfg video_id 0 w]
  by (auto simp: deep_search_channel_def split: prod.splits sum.splits)

lemma cache_store_trace: "trace (cache_store video_id info w) = trace w"
  by (simp add: cache_store_def time_time_def)

lemma remote_search_trace:
  "\<exists>es. trace (snd (remote_search cfg video_id w)) = trace w @ history_request cfg [] # es"
proof -
  let ?e = "history_request cfg []"
  let ?w1 = "w\<lparr>http_calls := http_calls w + 1, trace := trace w @ [?e]\<rparr>"
  obtain es where d: "trace (snd (deep_search_channel cfg video_id ?w1)) = trace w @ ?e # es"
    using deep_search_channel_trace [of cfg video_id ?w1] by auto
  then have d': "deep_search_channel cfg video_id ?w1 = (r, w2) \<Longrightarrow> trace w2 = trace w @ ?e # es" for r w2
    by simp
  show ?thesis
    using d'
    by (auto simp: remote_search_def http_request_eq cache_store_trace
        split: sum.splits option.splits prod.splits)
qed

lemmas eval_search =
  search_in_db_channel_def remote_search_def first_page_def deep_search_channel_def
  http_request_def history_request_def cache_store_def time_time_def log_event_def Let_def
  caption_of_def extract_file_info_def base_url_def CACHE_TTL_def
  world0_def world_fresh_def world_stale_def ex_cfg_def ex_message_def ex_audio_def ex_info_def
  http_one_page_def

text \<open>
  C4. With an entry \<open>(info, t)\<close> in the cache for the identifier, a lookup whose clock
  reading \<open>t'\<close> has \<open>t' - t < CACHE_TTL\<close> (3600 seconds) returns \<open>info\<close> as it is stored; the
  world changes only by the reading of the clock and the note of the call, so no request was
  sent and the cache is as before. A lookup with \<open>t' - t \<ge> CACHE_TTL\<close> is the remote search:
  its first effect is the request for the latest history page, and its result is the one
  the lookup has when the entry is not in the cache at all.
\<close>

theorem ttl_law:
  assumes "channel_cache w video_id = Some (info, t)"
  shows "(clock w (clock_reads w) - t < CACHE_TTL \<longrightarrow>
            search_in_db_channel cfg video_id w =
              (Some info, w\<lparr>trace := trace w @ [SearchDb video_id],
                              clock_reads := clock_reads w + 1\<rparr>))
       \<and> (\<not> clock w (clock_reads w) - t < CACHE_TTL \<longrightarrow>
            search_in_db_channel cfg video_id w =
              remote_search cfg video_id
                (w\<lparr>trace := trace w @ [SearchDb video_id], clock_reads := clock_reads w + 1\<rparr>)
          \<and> (\<exists>es. trace (snd (search_in_db_channel cfg video_id w)) =
                     trace w @ SearchDb video_id # history_request cfg [] # es)
          \<and> fst (search_in_db_channel cfg video_id w) =
              fst (search_in_db_channel cfg video_id
                     (w\<lparr>channel_cache := (channel_cache w)(video_id := None)\<rparr>)))"
proof (intro conjI impI)
  assume fresh: "clock w (clock_reads w) - t < CACHE_TTL"
  show "search_in_db_channel cfg video_id w =
          (Some info, w\<lparr>trace := trace w @ [SearchDb video_id], clock_reads := clock_reads w + 1\<rparr>)"
    using assms fresh by (rule search_in_db_channel_hit)
next
  assume stale: "\<not> clock w (clock_reads w) - t < CACHE_TTL"
  let ?w1 = "w\<lparr>trace := trace w @ [SearchDb video_id], clock_reads := clock_reads w + 1\<rparr>"
  show s: "search_in_db_channel cfg video_id w = remote_search cfg video_id ?w1"
    using assms stale by (rule search_in_db_channel_stale)
  show "\<exists>es. trace (snd (search_in_db_channel cfg video_id w)) =
               trace w @ SearchDb video_id # history_request cfg [] # es"
    using remote_search_trace [of cfg video_id ?w1] by (simp add: s)
  let ?v = "w\<lparr>channel_cache := (channel_cache w)(video_id := None)\<rparr>"
  have "search_in_db_channel cfg video_id ?v =
        remote_search cfg video_id (?v\<lparr>trace := trace ?v @ [SearchDb video_id]\<rparr>)"
    by (rule search_in_db_channel_absent) simp
  moreover have "fst (remote_search cfg video_id ?w1) =
                 fst (remote_search cfg video_id (?v\<lparr>trace := trace ?v @ [SearchDb video_id]\<rparr>))"
    by (rule remote_search_agree) simp_all
  ultimately show "fst (search_in_db_channel cfg video_id w) =
                   fst (search_in_db_channel cfg video_id ?v)"
    by (simp add: s)
qed

theorem ttl_law_witness:
  "fst (search_in_db_channel ex_cfg ''xyz'' world_fresh) = Some ex_info
   \<and> http_calls (snd (search_in_db_channel ex_cfg ''xyz'' world_fresh)) = http_calls world_fresh
   \<and> channel_cache (snd (search_in_db_channel ex_cfg ''xyz'' world_fresh)) ''xyz'' = Some (ex_info, 1000)
   \<and> fst (search_in_db_channel ex_cfg ''xyz'' world_stale) = Some ex_info
   \<and> (\<exists>es. trace (snd (search_in_db_channel ex_cfg ''xyz'' world_stale)) =
              SearchDb ''xyz'' # history_request ex_cfg [] # es)"
proof -
  have c1: "channel_cache world_fresh ''xyz'' = Some (ex_info, 1000)"
    by (simp add: world_fresh_def)
  have f: "clock world_fresh (clock_reads world_fresh) - 1000 < CACHE_TTL"
    by (simp add: world_fresh_def world0_def CACHE_TTL_def)
  have c2: "channel_cache world_stale ''xyz'' = Some ([(''file_id'', JStr ''OLD'')], - 3000)"
    by (simp add: world_stale_def)
  have st: "\<not> clock world_stale (clock_reads world_stale) - (- 3000) < CACHE_TTL"
    by (simp add: world_stale_def world0_def CACHE_TTL_def)
  have t0: "trace world_stale = []"
    by (simp add: world_stale_def world0_def)
  have r: "fst (remote_search ex_cfg ''xyz''
             (world_stale\<lparr>trace := trace world_stale @ [SearchDb ''xyz''],
                           clock_reads := clock_reads world_stale + 1\<rparr>)) = Some ex_info"
    by (simp add: eval_search)
  from ttl_law [OF c1, of ex_cfg] f
  have a: "search_in_db_channel ex_cfg ''xyz'' world_fresh =
            (Some ex_info, world_fresh\<lparr>trace := trace world_fresh @ [SearchDb ''xyz''],
                                        clock_reads := clock_reads world_fresh + 1\<rparr>)"
    by blast
  from ttl_law [OF c2, of ex_cfg] st
  have b: "search_in_db_channel ex_cfg ''xyz'' world_stale =
            remote_search ex_cfg ''xyz''
              (world_stale\<lparr>trace := trace world_stale @ [SearchDb ''xyz''],
                            clock_reads := clock_reads world_stale + 1\<rparr>)"
    and c: "\<exists>es. trace (snd (search_in_db_channel ex_cfg ''xyz'' world_stale)) =
              trace world_stale @ SearchDb ''xyz'' # history_request ex_cfg [] # es"
    by blast+
  show ?thesis
    using a b c r c1 t0 by simp
qed

text \<open>What the search leaves untouched: the server, the clock and the number of readings of
  the clock; the number of requests only grows.\<close>

lemma deep_pages_frame:
  "http_server (snd (deep_pages n cfg video_id offset_id w)) = http_server w
   \<and> clock (snd (deep_pages n cfg video_id offset_id w)) = clock w
   \<and> clock_reads (snd (deep_pages n cfg video_id offset_id w)) = clock_reads w
   \<and> http_calls w \<le> http_calls (snd (deep_pages n cfg video_id offset_id w))"
proof (induction n arbitrary: offset_id w)
  case 0
  then show ?case by simp
next
  case (Suc n)
  let ?w1 = "w\<lparr>http_calls := http_calls w + 1,
               trace := trace w @ [history_request cfg [(''offset_id'', JInt offset_id)]]\<rparr>"
  have ih: "http_server (snd (deep_pages n cfg video_id mid ?w1)) = http_server w
      \<and> clock (snd (deep_pages n cfg video_id mid ?w1)) = clock w
      \<and> clock_reads (snd (deep_pages n cfg video_id mid ?w1)) = clock_reads w
      \<and> http_calls w \<le> http_calls (snd (deep_pages n cfg video_id mid ?w1))" for mid
    using Suc.IH [of mid ?w1] by simp
  show ?case
    using ih
    by (simp add: http_request_eq split: http_outcome.splits http_body.splits option.splits)
qed

lemma deep_pages_frameD:
  assumes "deep_pages n cfg video_id offset_id w = (r, w')"
  shows "http_server w' = http_server w" "clock w' = clock w" "clock_reads w' = clock_reads w"
    "http_calls w \<le> http_calls w'"
  using deep_pages_frame [of n cfg video_id offset_id w] assms by simp_all

text \<open>A result of the search was extracted from a message, with the identifier in its
  caption, of a page that the server sent in answer to a request of this search.\<close>

lemma scan_messages_Some:
  "scan_messages video_id ms = Some info \<Longrightarrow>
   \<exists>msg \<in> set ms. str_in video_id (caption_of msg) \<and> extract_file_info msg video_id = Some info"
  by (induction ms) (auto split: if_splits option.splits)

lemma first_page_Some:
  assumes "first_page video_id outcome = Inr (Some info)"
  shows "\<exists>data ms msg. outcome = HttpResponse 200 (Json data) \<and> body_ok data
           \<and> result_messages data = Some ms \<and> msg \<in> set ms
           \<and> str_in video_id (caption_of msg) \<and> extract_file_info msg video_id = Some info"
proof -
  obtain data where o: "outcome = HttpResponse 200 (Json data)" and ok: "body_ok data"
    and sc: "scan_messages video_id (case result_messages data of Some ms \<Rightarrow> ms | None \<Rightarrow> []) =
             Some info"
    using assms
    by (auto simp: first_page_def split: http_outcome.splits http_body.splits if_splits)
  obtain ms where ms: "result_messages data = Some ms"
    using sc by (cases "result_messages data") auto
  obtain msg where "msg \<in> set ms" "str_in video_id (caption_of msg)"
    "extract_file_info msg video_id = Some info"
    using scan_messages_Some [of video_id ms info] sc ms by auto
  then show ?thesis
    using o ok ms by blast
qed

lemma deep_pages_step:
  assumes "deep_pages (Suc n) cfg video_id offset_id w = (Inr (Some info), w')"
  shows "\<exists>data ms. http_server w (http_calls w) = HttpResponse 200 (Json data) \<and> body_ok data
           \<and> result_messages data = Some ms
           \<and> (scan_messages video_id ms = Some info
                \<and> http_calls w' = http_calls w + 1
              \<or> (\<exists>mid. deep_pages n cfg video_id mid
                    (w\<lparr>http_calls := http_calls w + 1,
                       trace := trace w @ [history_request cfg [(''offset_id'', JInt offset_id)]]\<rparr>) =
                    (Inr (Some info), w')))"
  using assms
  by (auto simp: http_request_eq
      split: http_outcome.splits http_body.splits option.splits if_splits)

lemma deep_pages_Some:
  "deep_pages n cfg video_id offset_id w = (Inr (Some info), w') \<Longrightarrow>
   \<exists>k data ms msg. http_calls w \<le> k \<and> k < http_calls w'
      \<and> http_server w k = HttpResponse 200 (Json data) \<and> body_ok data
      \<and> result_messages data = Some ms \<and> msg \<in> set ms
      \<and> str_in video_id (caption_of msg) \<and> extract_file_info msg video_id = Some info"
proof (induction n arbitrary: offset_id w)
  case 0
  then show ?case by simp
next
  case (Suc n)
  let ?w1 = "w\<lparr>http_calls := http_calls w + 1,
               trace := trace w @ [history_request cfg [(''offset_id'', JInt offset_id)]]\<rparr>"
  obtain data ms where p: "http_server w (http_calls w) = HttpResponse 200 (Json data)"
      "body_ok data" "result_messages data = Some ms"
    and alt: "scan_messages video_id ms = Some info \<and> http_calls w' = http_calls w + 1
              \<or> (\<exists>mid. deep_pages n cfg video_id mid ?w1 = (Inr (Some info), w'))"
    using deep_pages_step [OF Suc.prems] by blast
  from alt show ?case
  proof
    assume a: "scan_messages video_id ms = Some info \<and> http_calls w' = http_calls w + 1"
    then obtain msg where "msg \<in> set ms" "str_in video_id (caption_of msg)"
      "extract_file_info msg video_id = Some info"
      using scan_messages_Some [of video_id ms info] by auto
    then show ?thesis
      using p a by (intro exI [of _ "http_calls w"] exI [of _ data] exI [of _ ms] exI [of _ msg])
        simp
  next
    assume "\<exists>mid. deep_pages n cfg video_id mid ?w1 = (Inr (Some info), w')"
    then obtain mid where d: "deep_pages n cfg video_id mid ?w1 = (Inr (Some info), w')"
      by blast
    obtain k data' ms' msg where k: "http_calls ?w1 \<le> k" "k < http_calls w'"
      and q: "http_server ?w1 k = HttpResponse 200 (Json data')" "body_ok data'"
        "result_messages data' = Some ms'" "msg \<in> set ms'"
        "str_in video_id (caption_of msg)" "extract_file_info msg video_id = Some info"
      using Suc.IH [OF d] by blast
    show ?thesis
      using k q by (intro exI [of _ k] exI [of _ data'] exI [of _ ms'] exI [of _ msg]) simp
  qed
qed

lemma deep_search_channel_Some:
  assumes "deep_search_channel cfg video_id w = (Some info, w')"
  shows "\<exists>k data ms msg. http_calls w \<le> k \<and> k < http_calls w'
      \<and> http_server w k = HttpResponse 200 (Json data) \<and> body_ok data
      \<and> result_messages data = Some ms \<and> msg \<in> set ms
      \<and> str_in video_id (caption_of msg) \<and> extract_file_info msg video_id = Some info"
proof -
  have "deep_pages (500 div 100) cfg video_id 0 w = (Inr (Some info), w')"
    using assms by (auto simp: deep_search_channel_def split: prod.splits sum.splits)
  then show ?thesis
    by (rule deep_pages_Some)
qed

lemma deep_search_channel_frameD:
  assumes "deep_search_channel cfg video_id w = (r, w')"
  shows "http_server w' = http_server w" "clock w' = clock w" "clock_reads w' = clock_reads w"
    "http_calls w \<le> http_calls w'"
proof -
  obtain x where "deep_pages (500 div 100) cfg video_id 0 w = (x, w')"
    using assms by (auto simp: deep_search_channel_def split: prod.splits sum.splits)
  from deep_pages_frameD [OF this]
  show "http_server w' = http_server w" "clock w' = clock w" "clock_reads w' = clock_reads w"
    "http_calls w \<le> http_calls w'"
    by simp_all
qed

lemma cache_store_fields:
  "channel_cache (cache_store video_id info w) =
     (channel_cache w)(video_id \<mapsto> (info, clock w (clock_reads w)))"
  "clock_reads (cache_store video_id info w) = clock_reads w + 1"
  "http_calls (cache_store video_id info w) = http_calls w"
  by (simp_all add: cache_store_def time_time_def)

lemma remote_search_Some:
  assumes a: "remote_search cfg video_id w = (Some info, w')"
  shows "(\<exists>k data ms msg. http_calls w \<le> k \<and> k < http_calls w'
            \<and> http_server w k = HttpResponse 200 (Json data) \<and> body_ok data
            \<and> result_messages data = Some ms \<and> msg \<in> set ms
            \<and> str_in video_id (caption_of msg) \<and> extract_file_info msg video_id = Some info)
       \<and> channel_cache w' = (channel_cache w)(video_id \<mapsto> (info, clock w (clock_reads w)))
       \<and> clock_reads w' = clock_reads w + 1"
proof -
  let ?w1 = "w\<lparr>http_calls := http_calls w + 1, trace := trace w @ [history_request cfg []]\<rparr>"
  let ?o1 = "http_server w (http_calls w)"
  obtain d w2 where ds: "deep_search_channel cfg video_id ?w1 = (d, w2)"
    by (cases "deep_search_channel cfg video_id ?w1")
  have c2: "channel_cache w2 = channel_cache w"
    using deep_search_channel_cacheD [OF ds] by simp
  note fr = deep_search_channel_frameD [OF ds]
  have r: "remote_search cfg video_id w =
           (case first_page video_id ?o1 of
              Inl _ \<Rightarrow> (None, ?w1)
            | Inr (Some file_info) \<Rightarrow> (Some file_info, cache_store video_id file_info ?w1)
            | Inr None \<Rightarrow>
               (case d of Some file_info \<Rightarrow> (Some file_info, cache_store video_id file_info w2)
                | None \<Rightarrow> (None, w2)))"
    using ds
    by (simp add: remote_search_def http_request_eq split: sum.splits option.splits)
  show ?thesis
  proof (cases "first_page video_id ?o1")
    case (Inl u)
    then show ?thesis using a r by simp
  next
    case (Inr x)
    show ?thesis
    proof (cases x)
      case None
      then have d: "d = Some info" and w': "w' = cache_store video_id info w2"
        using a r Inr by (auto split: option.splits)
      obtain k data ms msg where k: "http_calls ?w1 \<le> k" "k < http_calls w2"
        and q: "http_server ?w1 k = HttpResponse 200 (Json data)" "body_ok data"
          "result_messages data = Some ms" "msg \<in> set ms"
          "str_in video_id (caption_of msg)" "extract_file_info msg video_id = Some info"
        using deep_search_channel_Some [OF ds [unfolded d]] by blast
      have "\<exists>k data ms msg. http_calls w \<le> k \<and> k < http_calls w'
            \<and> http_server w k = HttpResponse 200 (Json data) \<and> body_ok data
            \<and> result_messages data = Some ms \<and> msg \<in> set ms
            \<and> str_in video_id (caption_of msg) \<and> extract_file_info msg video_id = Some info"
        using k q
        by (intro exI [of _ k] exI [of _ data] exI [of _ ms] exI [of _ msg])
          (simp add: w' cache_store_fields)
      then show ?thesis
        using c2 fr by (simp add: w' cache_store_fields)
    next
      case (Some fi)
      then have fi: "fi = info" and w': "w' = cache_store video_id info ?w1"
        using a r Inr by auto
      obtain data ms msg where q: "?o1 = HttpResponse 200 (Json data)" "body_ok data"
          "result_messages data = Some ms" "msg \<in> set ms"
          "str_in video_id (caption_of msg)" "extract_file_info msg video_id = Some info"
        using first_page_Some [of video_id ?o1 info] Inr Some fi by blast
      have "\<exists>k data ms msg. http_calls w \<le> k \<and> k < http_calls w'
            \<and> http_server w k = HttpResponse 200 (Json data) \<and> body_ok data
            \<and> result_messages data = Some ms \<and> msg \<in> set ms
            \<and> str_in video_id (caption_of msg) \<and> extract_file_info msg video_id = Some info"
        using q
        by (intro exI [of _ "http_calls w"] exI [of _ data] exI [of _ ms] exI [of _ msg])
          (simp add: w' cache_store_fields)
      then show ?thesis
        by (simp add: w' cache_store_fields)
    qed
  qed
qed

lemma search_in_db_channel_Some:
  assumes a: "search_in_db_channel cfg video_id w = (Some info, w')"
  shows "channel_cache w' = channel_cache w \<or>
         ((\<exists>k data ms msg. http_calls w \<le> k \<and> k < http_calls w'
            \<and> http_server w k = HttpResponse 200 (Json data) \<and> body_ok data
            \<and> result_messages data = Some ms \<and> msg \<in> set ms
            \<and> str_in video_id (caption_of msg) \<and> extract_file_info msg video_id = Some info)
          \<and> channel_cache w' =
              (channel_cache w)(video_id \<mapsto> (info, clock w (clock_reads w' - 1))))"
proof (cases "channel_cache w video_id")
  case None
  from a search_in_db_channel_absent [OF None, of cfg]
  have "remote_search cfg video_id (w\<lparr>trace := trace w @ [SearchDb video_id]\<rparr>) = (Some info, w')"
    by simp
  from remote_search_Some [OF this] show ?thesis by simp
next
  case (Some e)
  obtain ci t where e: "channel_cache w video_id = Some (ci, t)"
    using Some by (cases e) simp
  show ?thesis
  proof (cases "clock w (clock_reads w) - t < CACHE_TTL")
    case True
    from a search_in_db_channel_hit [OF e True, of cfg] show ?thesis by auto
  next
    case False
    from a search_in_db_channel_stale [OF e False, of cfg]
    have "remote_search cfg video_id
           (w\<lparr>trace := trace w @ [SearchDb video_id], clock_reads := clock_reads w + 1\<rparr>) = (Some info, w')"
      by simp
    from remote_search_Some [OF this] show ?thesis by simp
  qed
qed

text \<open>
  C10. The cache stores no negative result. Whenever \<open>search_in_db_channel\<close> returns
  \<open>None\<close> (no match on the latest page and in the deep search, or an error of the
  transport) the cache is unchanged. The cache changes only by an entry for the identifier,
  and then the entry holds the result of the call, which was extracted from a message
  whose caption contains the identifier, on a page that the server sent with status 200
  and \<open>ok\<close> in answer to a request made during the call; the time stored with it is the
  last reading of the clock in the call. After a \<open>None\<close> for an identifier without an entry
  the next lookup is again the remote search.
\<close>

theorem cache_holds_no_negative_results:
  assumes "search_in_db_channel cfg video_id w = (r, w')"
  shows "(r = None \<longrightarrow> channel_cache w' = channel_cache w)
       \<and> (channel_cache w' \<noteq> channel_cache w \<longrightarrow>
            (\<exists>info k data ms msg. r = Some info
               \<and> http_calls w \<le> k \<and> k < http_calls w'
               \<and> http_server w k = HttpResponse 200 (Json data) \<and> body_ok data
               \<and> result_messages data = Some ms \<and> msg \<in> set ms
               \<and> str_in video_id (caption_of msg)
               \<and> extract_file_info msg video_id = Some info
               \<and> channel_cache w' =
                   (channel_cache w)(video_id \<mapsto> (info, clock w (clock_reads w' - 1)))))
       \<and> (r = None \<and> channel_cache w video_id = None \<longrightarrow>
            search_in_db_channel cfg video_id w' =
              remote_search cfg video_id (w'\<lparr>trace := trace w' @ [SearchDb video_id]\<rparr>))"
proof (intro conjI impI)
  assume "r = None"
  then show "channel_cache w' = channel_cache w"
    using assms search_in_db_channel_None by blast
next
  assume ch: "channel_cache w' \<noteq> channel_cache w"
  then obtain info where r: "r = Some info"
    using assms search_in_db_channel_None by (cases r) blast+
  from search_in_db_channel_Some [OF assms [unfolded r]] ch
  obtain k data ms msg where "http_calls w \<le> k" "k < http_calls w'"
    "http_server w k = HttpResponse 200 (Json data)" "body_ok data"
    "result_messages data = Some ms" "msg \<in> set ms"
    "str_in video_id (caption_of msg)" "extract_file_info msg video_id = Some info"
    "channel_cache w' = (channel_cache w)(video_id \<mapsto> (info, clock w (clock_reads w' - 1)))"
    by blast
  then show "\<exists>info k data ms msg. r = Some info
               \<and> http_calls w \<le> k \<and> k < http_calls w'
               \<and> http_server w k = HttpResponse 200 (Json data) \<and> body_ok data
               \<and> result_messages data = Some ms \<and> msg \<in> set ms
               \<and> str_in video_id (caption_of msg)
               \<and> extract_file_info msg video_id = Some info
               \<and> channel_cache w' =
                   (channel_cache w)(video_id \<mapsto> (info, clock w (clock_reads w' - 1)))"
    using r by (intro exI [of _ info] exI [of _ k] exI [of _ data] exI [of _ ms] exI [of _ msg])
      simp
next
  assume a: "r = None \<and> channel_cache w video_id = None"
  then have "channel_cache w' = channel_cache w"
    using assms search_in_db_channel_None by blast
  then have "channel_cache w' video_id = None"
    using a by simp
  then show "search_in_db_channel cfg video_id w' =
              remote_search cfg video_id (w'\<lparr>trace := trace w' @ [SearchDb video_id]\<rparr>)"
    by (rule search_in_db_channel_absent)
qed

theorem cache_holds_no_negative_results_witness:
  "fst (search_in_db_channel ex_cfg ''xyz'' world0) = None
   \<and> channel_cache (snd (search_in_db_channel ex_cfg ''xyz'' world0)) = channel_cache world0
   \<and> search_in_db_channel ex_cfg ''xyz'' (snd (search_in_db_channel ex_cfg ''xyz'' world0)) =
       remote_search ex_cfg ''xyz''
         ((snd (search_in_db_channel ex_cfg ''xyz'' world0))
            \<lparr>trace := trace (snd (search_in_db_channel ex_cfg ''xyz'' world0)) @ [SearchDb ''xyz'']\<rparr>)
   \<and> channel_cache (snd (search_in_db_channel ex_cfg ''xyz'' world_stale)) \<noteq> channel_cache world_stale
   \<and> fst (search_in_db_channel ex_cfg ''xyz'' world_stale) = Some ex_info
   \<and> http_calls world_stale = 0
   \<and> http_calls (snd (search_in_db_channel ex_cfg ''xyz'' world_stale)) = 1
   \<and> http_server world_stale 0 = http_one_page 0
   \<and> str_in ''xyz'' (caption_of ex_message)
   \<and> extract_file_info ex_message ''xyz'' = Some ex_info
   \<and> channel_cache (snd (search_in_db_channel ex_cfg ''xyz'' world_stale)) =
       (channel_cache world_stale)(''xyz'' \<mapsto> (ex_info, 1001))"
proof -
  let ?w' = "snd (search_in_db_channel ex_cfg ''xyz'' world0)"
  let ?v' = "snd (search_in_db_channel ex_cfg ''xyz'' world_stale)"
  have n: "fst (search_in_db_channel ex_cfg ''xyz'' world0) = None"
    by (simp add: eval_search)
  then have e: "search_in_db_channel ex_cfg ''xyz'' world0 = (None, ?w')"
    by (simp add: prod_eq_iff)
  have c0: "channel_cache world0 ''xyz'' = None"
    by (simp add: world0_def)
  have s: "fst (search_in_db_channel ex_cfg ''xyz'' world_stale) = Some ex_info"
    by (simp add: eval_search)
  then have e2: "search_in_db_channel ex_cfg ''xyz'' world_stale = (Some ex_info, ?v')"
    by (simp add: prod_eq_iff)
  have "channel_cache ?v' ''xyz'' \<noteq> channel_cache world_stale ''xyz''"
    by (simp add: eval_search)
  then have d: "channel_cache ?v' \<noteq> channel_cache world_stale"
    by metis
  have h0: "http_calls world_stale = 0"
    by (simp add: world_stale_def world0_def)
  have h1: "http_calls ?v' = 1"
    by (simp add: eval_search)
  have r1: "clock_reads ?v' = 2"
    by (simp add: eval_search)
  have ck: "clock world_stale 1 = 1001"
    by (simp add: world_stale_def world0_def)
  have p: "http_server world_stale 0 = http_one_page 0"
    by (simp add: world_stale_def world0_def)
  from cache_holds_no_negative_results [OF e] n c0
  have a: "channel_cache ?w' = channel_cache world0"
    and b: "search_in_db_channel ex_cfg ''xyz'' ?w' =
         remote_search ex_cfg ''xyz'' (?w'\<lparr>trace := trace ?w' @ [SearchDb ''xyz'']\<rparr>)"
    by blast+
  from cache_holds_no_negative_results [OF e2] d
  obtain info k data ms msg where i: "Some ex_info = Some info"
    and k: "http_calls world_stale \<le> k" "k < http_calls ?v'"
    and q: "http_server world_stale k = HttpResponse 200 (Json data)"
      "result_messages data = Some ms" "msg \<in> set ms"
    and m: "str_in ''xyz'' (caption_of msg)" "extract_file_info msg ''xyz'' = Some info"
    and c: "channel_cache ?v' =
            (channel_cache world_stale)(''xyz'' \<mapsto> (info, clock world_stale (clock_reads ?v' - 1)))"
    by blast
  have k0: "k = 0"
    using k h1 by simp
  have "data = \<lparr>body_ok = True, result_messages = Some [ex_message],
                  result_message = None, result_file_path = None\<rparr>"
    using q(1) p by (simp add: k0 http_one_page_def)
  then have "ms = [ex_message]"
    using q(2) by simp
  then have "msg = ex_message"
    using q(3) by simp
  then have m': "str_in ''xyz'' (caption_of ex_message)"
      "extract_file_info ex_message ''xyz'' = Some ex_info"
    using m i by simp_all
  have c': "channel_cache ?v' = (channel_cache world_stale)(''xyz'' \<mapsto> (ex_info, 1001))"
    using c i r1 ck by simp
  show ?thesis
    using n a b d s h0 h1 p m' c' by simp
qed

section \<open>Calls of the search and status writes along a run\<close>

lemma marks_update [simp]:
  "marks (w\<lparr>files := a\<rparr>) = marks w"
  "marks (w\<lparr>ydl_calls := b\<rparr>) = marks w"
  "marks (w\<lparr>ffmpeg_calls := c\<rparr>) = marks w"
  "marks (w\<lparr>http_calls := d\<rparr>) = marks w"
  "marks (w\<lparr>temps_made := e\<rparr>) = marks w"
  "marks (w\<lparr>clock_reads := f\<rparr>) = marks w"
  "marks (w\<lparr>channel_cache := g\<rparr>) = marks w"
  "marks (w\<lparr>background_upload_tasks := h\<rparr>) = marks w"
  by (simp_all add: marks_def)

lemma marks_log_event: "marks (log_event e w) = marks w @ (if is_mark e then [e] else [])"
  by (simp add: marks_def log_event_def)

lemma marks_apply_effect [simp]: "marks (apply_effect p e w) = marks w"
  by (simp add: marks_def apply_effect_def split: file_effect.splits)

lemma marks_sleep_for [simp]: "marks (sleep_for d w) = marks w"
  by (simp add: sleep_for_def marks_log_event)

lemma marks_run_ydl: "run_ydl opts url w = (r, w') \<Longrightarrow> marks w' = marks w"
  by (auto simp: run_ydl_def Let_def marks_log_event
      split: option.splits jval.splits)

lemma marks_retry_loop:
  "retry_loop base_opts url file_path sched w = (r, w') \<Longrightarrow> marks w' = marks w"
proof (induction base_opts url file_path sched w rule: retry_loop.induct)
  case (1 base_opts url file_path w)
  then show ?case by simp
next
  case (2 base_opts url file_path retry_no delay rest w)
  obtain o1 w1 where h: "run_ydl base_opts url (sleep_for delay w) = (o1, w1)"
    by (cases "run_ydl base_opts url (sleep_for delay w)")
  have m: "marks w1 = marks w"
    using marks_run_ydl [OF h] by simp
  show ?case
    using "2.prems" "2.IH" h m
    by (auto simp: Let_def split: sum.splits if_splits)
qed

lemma marks_tier_loop:
  "tier_loop tries url file_path w = (r, w') \<Longrightarrow> marks w' = marks w"
proof (induction tries url file_path w rule: tier_loop.induct)
  case (1 url file_path w)
  then show ?case by simp
next
  case (2 base_opts tries url file_path w)
  obtain o1 w1 where h: "retry_loop base_opts url file_path (enumerate 0 backoff) w = (o1, w1)"
    by (cases "retry_loop base_opts url file_path (enumerate 0 backoff) w")
  have m: "marks w1 = marks w"
    using marks_retry_loop [OF h] .
  show ?case
    using "2.prems" "2.IH" h m
    by (cases o1) auto
qed

lemma marks_download: "download video_id type' w = (r, w') \<Longrightarrow> marks w' = marks w"
  by (auto simp: download_def Let_def split: if_splits dest: marks_tier_loop)

lemma marks_local_download_media:
  "local_download_media cfg video_id media_type w = (r, w') \<Longrightarrow> marks w' = marks w"
  by (auto simp: local_download_media_def split: if_splits prod.splits sum.splits
      dest: marks_download)

lemma marks_http_request:
  "\<not> is_mark e \<Longrightarrow> http_request e w = (r, w') \<Longrightarrow> marks w' = marks w"
  by (auto simp: http_request_def marks_log_event)

lemma marks_time_time: "time_time w = (t, w') \<Longrightarrow> marks w' = marks w"
  by (auto simp: time_time_def)

lemma marks_cache_store [simp]: "marks (cache_store video_id info w) = marks w"
  by (simp add: cache_store_def time_time_def)

lemma not_mark_history [simp]: "\<not> is_mark (history_request cfg extra)"
  by (simp add: history_request_def)

lemma marks_deep_pages:
  "deep_pages n cfg video_id offset_id w = (r, w') \<Longrightarrow> marks w' = marks w"
proof (induction n arbitrary: offset_id w)
  case 0
  then show ?case by simp
next
  case (Suc n)
  obtain o1 w1 where h: "http_request (history_request cfg [(''offset_id'', JInt offset_id)]) w = (o1, w1)"
    by (cases "http_request (history_request cfg [(''offset_id'', JInt offset_id)]) w")
  have m: "marks w1 = marks w"
    using marks_http_request [OF _ h] by simp
  show ?case
    using Suc.prems Suc.IH h m
    by (auto split: http_outcome.splits http_body.splits option.splits if_splits)
qed

lemma marks_deep_search_channel:
  "deep_search_channel cfg video_id w = (r, w') \<Longrightarrow> marks w' = marks w"
  by (auto simp: deep_search_channel_def split: prod.splits sum.splits dest: marks_deep_pages)

lemma marks_remote_search:
  "remote_search cfg video_id w = (r, w') \<Longrightarrow> marks w' = marks w"
proof -
  assume a: "remote_search cfg video_id w = (r, w')"
  obtain o1 w1 where h: "http_request (history_request cfg []) w = (o1, w1)"
    by (cases "http_request (history_request cfg []) w")
  have m: "marks w1 = marks w"
    using marks_http_request [OF _ h] by simp
  obtain d w2 where ds: "deep_search_channel cfg video_id w1 = (d, w2)"
    by (cases "deep_search_channel cfg video_id w1")
  have m2: "marks w2 = marks w"
    using marks_deep_search_channel [OF ds] m by simp
  show ?thesis
    using a h m ds m2
    by (auto simp: remote_search_def split: sum.splits option.splits)
qed

lemma marks_search_in_db_channel:
  "search_in_db_channel cfg video_id w = (r, w') \<Longrightarrow> marks w' = marks w @ [SearchDb video_id]"
proof -
  assume a: "search_in_db_channel cfg video_id w = (r, w')"
  let ?w = "log_event (SearchDb video_id) w"
  have m0: "marks ?w = marks w @ [SearchDb video_id]"
    by (simp add: marks_log_event)
  have m1: "marks (snd (time_time ?w)) = marks w @ [SearchDb video_id]"
    using m0 by (simp add: time_time_def)
  show ?thesis
    using a m0 m1
    by (auto simp: search_in_db_channel_def Let_def split: option.splits prod.splits if_splits
        dest!: marks_remote_search)
qed

lemma marks_get_file_download_url:
  "get_file_download_url cfg fid w = (r, w') \<Longrightarrow> marks w' = marks w"
proof -
  assume a: "get_file_download_url cfg fid w = (r, w')"
  obtain o1 w1 where h: "http_request (HttpGet (base_url cfg @ ''/getFile'') [(''file_id'', fid)]) w = (o1, w1)"
    by (cases "http_request (HttpGet (base_url cfg @ ''/getFile'') [(''file_id'', fid)]) w")
  have m: "marks w1 = marks w"
    using marks_http_request [OF _ h] by simp
  show ?thesis
    using a h m
    by (auto simp: get_file_download_url_def
        split: http_outcome.splits http_body.splits option.splits if_splits)
qed

section \<open>The orchestrator\<close>

lemma local_download_media_success:
  assumes "local_download_media cfg video_id media_type w = (local_result, w1)"
      and "dict_get local_result ''status'' = Some (JStr ''success'')"
  shows "\<exists>fp. dict_get local_result ''file_path'' = Some (JStr fp) \<and> path_exists fp w1"
  using assms
  by (auto simp: local_download_media_def error_result_def dict_get_def
      split: if_splits prod.splits sum.splits)

lemma all_failed_not_success [simp]:
  "all_failed lr \<noteq> (''status'', JStr ''success'') # rest"
  "(''status'', JStr ''success'') # rest \<noteq> all_failed lr"
  by (simp_all add: all_failed_def)

text \<open>
  C5, as the code has it. Let the primary engine (\<open>local_download_media\<close>) end with
  \<open>local_result\<close> in the world \<open>w1\<close>. When its status is \<open>success\<close>, the orchestrator
  returns the local link in that same world, so \<open>search_in_db_channel\<close> was not called.
  When it is not and a database manager is configured, the search is called exactly once,
  and the error (with the message of the primary engine) is returned exactly when the search
  yields nothing or an empty entry, or yields an entry whose download URL cannot be resolved.
  When it is not and no database manager is configured, the search is not called and the
  error is returned.
\<close>

theorem orchestrator_fallback:
  assumes p: "local_download_media cfg video_id media_type w = (local_result, w1)"
      and d: "download_media cfg video_id media_type request w = (res, w')"
  shows "(dict_get local_result ''status'' = Some (JStr ''success'') \<longrightarrow>
            marks w' = marks w \<and> w' = w1 \<and>
            (\<exists>link fp. res = Inr [(''status'', JStr ''success''), (''type'', JStr ''local_file''),
                                   (''link'', JStr link), (''file_path'', JStr fp),
                                   (''video_id'', JStr video_id),
                                   (''source'', JStr ''local_downloader'')]))
       \<and> (dict_get local_result ''status'' \<noteq> Some (JStr ''success'') \<and> has_telegram_db cfg \<longrightarrow>
            marks w' = marks w @ [SearchDb video_id] \<and>
            (\<forall>db w2. search_in_db_channel cfg video_id w1 = (db, w2) \<longrightarrow>
               (res = Inr (all_failed local_result)) =
               (db = None \<or> db = Some [] \<or>
                (\<exists>info fid. db = Some info \<and> dict_get info ''file_id'' = Some fid \<and>
                   fst (get_file_download_url cfg fid w2) = None))))
       \<and> (dict_get local_result ''status'' \<noteq> Some (JStr ''success'') \<and> \<not> has_telegram_db cfg \<longrightarrow>
            marks w' = marks w \<and> w' = w1 \<and> res = Inr (all_failed local_result))"
proof -
  have m1: "marks w1 = marks w"
    using p by (rule marks_local_download_media)
  show ?thesis
  proof (cases "dict_get local_result ''status'' = Some (JStr ''success'')")
    case True
    obtain fp where fp: "dict_get local_result ''file_path'' = Some (JStr fp)"
      using local_download_media_success [OF p True] by blast
    show ?thesis
      using p d True fp m1 by (auto simp: download_media_def)
  next
    case False
    show ?thesis
    proof (cases "has_telegram_db cfg")
      case no_db: False
      show ?thesis
        using p d False no_db m1 by (auto simp: download_media_def)
    next
      case db: True
      obtain r w2 where s: "search_in_db_channel cfg video_id w1 = (r, w2)"
        by (cases "search_in_db_channel cfg video_id w1")
      have m2: "marks w2 = marks w @ [SearchDb video_id]"
        using marks_search_in_db_channel [OF s] m1 by simp
      have res: "(res, w') =
          (case r of
             None \<Rightarrow> (Inr (all_failed local_result), w2)
           | Some db_file \<Rightarrow>
               if db_file \<noteq> [] then
                 (case dict_get db_file ''file_id'' of
                    None \<Rightarrow> (Inl (KeyError ''file_id''), w2)
                  | Some fid \<Rightarrow>
                      (case get_file_download_url cfg fid w2 of
                         (Some file_url, w3) \<Rightarrow>
                           (Inr [(''status'', JStr ''success''), (''type'', JStr ''db_channel''),
                                 (''link'', JStr file_url), (''video_id'', JStr video_id),
                                 (''file_info'', JDict db_file), (''source'', JStr ''telegram_db'')], w3)
                       | (None, w3) \<Rightarrow> (Inr (all_failed local_result), w3)))
               else (Inr (all_failed local_result), w2))"
        using p d False db s by (simp add: download_media_def)
      have mk: "marks w' = marks w @ [SearchDb video_id]"
      proof (cases r)
        case None
        then show ?thesis using res m2 by simp
      next
        case (Some db_file)
        show ?thesis
        proof (cases "db_file \<noteq> [] \<and> dict_get db_file ''file_id'' \<noteq> None")
          case True
          then obtain fid where fid: "dict_get db_file ''file_id'' = Some fid" by blast
          obtain u w3 where g: "get_file_download_url cfg fid w2 = (u, w3)"
            by (cases "get_file_download_url cfg fid w2")
          have "marks w3 = marks w2"
            using g by (rule marks_get_file_download_url)
          then show ?thesis
            using res Some True fid g m2 by (cases u) auto
        next
          case False
          then show ?thesis
            using res Some m2 by (auto split: if_splits option.splits)
        qed
      qed
      have iff: "(res = Inr (all_failed local_result)) =
               (r = None \<or> r = Some [] \<or>
                (\<exists>info fid. r = Some info \<and> dict_get info ''file_id'' = Some fid \<and>
                   fst (get_file_download_url cfg fid w2) = None))"
      proof (cases r)
        case None
        then show ?thesis using res by simp
      next
        case (Some db_file)
        show ?thesis
        proof (cases "db_file = []")
          case True
          then show ?thesis using res Some by simp
        next
          case ne: False
          show ?thesis
          proof (cases "dict_get db_file ''file_id''")
            case None
            then show ?thesis using res Some ne by simp
          next
            case (Some fid)
            obtain u w3 where g: "get_file_download_url cfg fid w2 = (u, w3)"
              by (cases "get_file_download_url cfg fid w2")
            show ?thesis
              using res \<open>r = Some db_file\<close> ne Some g by (cases u) auto
          qed
        qed
      qed
      show ?thesis
        using False db mk iff s by simp
    qed
  qed
qed

lemmas eval_orchestrator =
  download_media_def local_download_media_def all_failed_def error_result_def
  get_file_download_url_def has_telegram_db_def has_telegram_uploader_def
  world_offline_def ydl_never_def cfg_no_token_def marks_def

theorem orchestrator_fallback_witness:
  "dict_get (fst (local_download_media ex_cfg ''abc123'' ''audio'' world0)) ''status'' =
     Some (JStr ''success'')
   \<and> marks (snd (download_media ex_cfg ''abc123'' ''audio'' None world0)) = marks world0
   \<and> dict_get (fst (local_download_media ex_cfg ''xyz'' ''audio'' world_offline)) ''status'' \<noteq>
       Some (JStr ''success'')
   \<and> has_telegram_db ex_cfg
   \<and> marks (snd (download_media ex_cfg ''xyz'' ''audio'' None world_offline)) =
       marks world_offline @ [SearchDb ''xyz'']
   \<and> \<not> has_telegram_db cfg_no_token
   \<and> fst (download_media cfg_no_token ''xyz'' ''audio'' None world_offline) =
       Inr (all_failed (fst (local_download_media cfg_no_token ''xyz'' ''audio'' world_offline)))"
proof -
  have s1: "dict_get (fst (local_download_media ex_cfg ''abc123'' ''audio'' world0)) ''status'' =
            Some (JStr ''success'')"
    by (simp add: local_download_media_def ex_cfg_def eval_downloader)
  have s2: "dict_get (fst (local_download_media ex_cfg ''xyz'' ''audio'' world_offline)) ''status'' \<noteq>
            Some (JStr ''success'')"
    by (simp add: local_download_media_def error_result_def ex_cfg_def world_offline_def
        world_fresh_def ydl_never_def eval_downloader)
  have s3: "dict_get (fst (local_download_media cfg_no_token ''xyz'' ''audio'' world_offline)) ''status'' \<noteq>
            Some (JStr ''success'')"
    by (simp add: local_download_media_def error_result_def ex_cfg_def cfg_no_token_def
        world_offline_def world_fresh_def ydl_never_def eval_downloader)
  have db: "has_telegram_db ex_cfg" and nodb: "\<not> has_telegram_db cfg_no_token"
    by (simp_all add: has_telegram_db_def ex_cfg_def cfg_no_token_def)
  have t1: "marks (snd (download_media ex_cfg ''abc123'' ''audio'' None world0)) = marks world0"
    using orchestrator_fallback [where cfg = ex_cfg and video_id = "''abc123''"
        and media_type = "''audio''" and w = world0 and request = None,
        OF surjective_pairing surjective_pairing] s1
    by blast
  have t2: "marks (snd (download_media ex_cfg ''xyz'' ''audio'' None world_offline)) =
            marks world_offline @ [SearchDb ''xyz'']"
    using orchestrator_fallback [where cfg = ex_cfg and video_id = "''xyz''"
        and media_type = "''audio''" and w = world_offline and request = None,
        OF surjective_pairing surjective_pairing] s2 db
    by blast
  have t3: "fst (download_media cfg_no_token ''xyz'' ''audio'' None world_offline) =
       Inr (all_failed (fst (local_download_media cfg_no_token ''xyz'' ''audio'' world_offline)))"
    using orchestrator_fallback [where cfg = cfg_no_token and video_id = "''xyz''"
        and media_type = "''audio''" and w = world_offline and request = None,
        OF surjective_pairing surjective_pairing] s3 nodb
    by blast
  show ?thesis
    using s1 s2 db nodb t1 t2 t3 by blast
qed


text \<open>
  The claim C5 as it is worded fails where the look-up of the download URL fails: the
  primary engine fails, the search yields the cached entry for \<open>xyz\<close>, the backend does
  not answer \<open>getFile\<close>, and the orchestrator returns the error although the search yielded
  an entry.
\<close>

theorem orchestrator_error_despite_entry:
  "fst (local_download_media ex_cfg ''xyz'' ''audio'' world_offline) =
     error_result ''Local download error: attempts failed''
   \<and> fst (search_in_db_channel ex_cfg ''xyz''
            (snd (local_download_media ex_cfg ''xyz'' ''audio'' world_offline))) = Some ex_info
   \<and> fst (download_media ex_cfg ''xyz'' ''audio'' None world_offline) =
       Inr (error_result ''Local download error: attempts failed'')
   \<and> marks (snd (download_media ex_cfg ''xyz'' ''audio'' None world_offline)) = [SearchDb ''xyz'']"
  by (simp add: eval_orchestrator eval_search eval_downloader)


section \<open>The relay engine\<close>

lemma marks_run_ffmpeg: "run_ffmpeg cmd out w = (r, w') \<Longrightarrow> marks w' = marks w"
  by (auto simp: run_ffmpeg_def Let_def marks_log_event split: if_splits)

lemma marks_compress_audio:
  "compress_audio input_path output_path bitrate w = (r, w') \<Longrightarrow> marks w' = marks w"
  by (auto simp: compress_audio_def split: prod.splits option.splits if_splits
      dest: marks_run_ffmpeg)

lemma marks_compress_video:
  "compress_video input_path output_path vb ab sc w = (r, w') \<Longrightarrow> marks w' = marks w"
  by (auto simp: compress_video_def split: prod.splits option.splits if_splits
      dest: marks_run_ffmpeg)

lemma marks_convert_to_webm:
  "convert_to_webm input_path output_path w = (r, w') \<Longrightarrow> marks w' = marks w"
  by (auto simp: convert_to_webm_def split: prod.splits option.splits if_splits
      dest: marks_run_ffmpeg)

lemma marks_named_temporary_file:
  "named_temporary_file suffix w = (r, w') \<Longrightarrow> marks w' = marks w"
  by (auto simp: named_temporary_file_def Let_def split: if_splits)

lemma marks_os_remove [simp]: "marks (os_remove p w) = marks w"
  by (simp add: os_remove_def)

lemma marks_os_rename [simp]: "marks (os_rename a b w) = marks w"
  by (simp add: os_rename_def)

lemma marks_audio_ladder:
  "audio_ladder file_path temp_path file_limit rates success w = (r, w') \<Longrightarrow> marks w' = marks w"
proof (induction rates arbitrary: success w)
  case Nil
  then show ?case by simp
next
  case (Cons bitrate rest)
  obtain s1 w1 where h: "compress_audio file_path temp_path bitrate w = (s1, w1)"
    by (cases "compress_audio file_path temp_path bitrate w")
  have m: "marks w1 = marks w"
    using h by (rule marks_compress_audio)
  show ?case
    using Cons.prems Cons.IH h m
    by (auto split: if_splits option.splits)
qed

lemma marks_video_ladder:
  "video_ladder file_path temp_path file_limit rates success w = (r, w') \<Longrightarrow> marks w' = marks w"
proof (induction rates arbitrary: success w)
  case Nil
  then show ?case by simp
next
  case (Cons bitrate rest)
  obtain s1 w1 where h: "compress_video file_path temp_path bitrate ''128k'' ''1280:720'' w = (s1, w1)"
    by (cases "compress_video file_path temp_path bitrate ''128k'' ''1280:720'' w")
  have m: "marks w1 = marks w"
    using h by (rule marks_compress_video)
  show ?case
    using Cons.prems Cons.IH h m
    by (auto split: if_splits option.splits)
qed

lemma marks_compress_attempts:
  assumes a: "compress_attempts file_path media_type temp_path file_limit w = (r, w')"
  shows "marks w' = marks w"
proof -
  obtain c w1 where h: "convert_to_webm file_path (temp_path @ ''.webm'') w = (c, w1)"
    by (cases "convert_to_webm file_path (temp_path @ ''.webm'') w")
  have m: "marks w1 = marks w"
    using h by (rule marks_convert_to_webm)
  have v: "video_ladder file_path temp_path file_limit rates s v = (r, w') \<Longrightarrow> marks v = marks w
           \<Longrightarrow> marks w' = marks w" for rates s v
    using marks_video_ladder by metis
  show ?thesis
    using a h m
    by (auto simp: compress_attempts_def Let_def
        simp del: audio_ladder.simps video_ladder.simps
        split: if_splits option.splits
        dest: marks_audio_ladder intro: v)
qed

lemma marks_compress_if_needed:
  assumes a: "compress_if_needed file_path media_type file_sz w = (r, w')"
  shows "marks w' = marks w"
proof (cases "file_sz \<le> (if media_type = ''video'' then TELEGRAM_VIDEO_LIMIT else TELEGRAM_FILE_LIMIT)")
  case True
  then show ?thesis using a by (simp add: compress_if_needed_def Let_def)
next
  case False
  obtain t w1 where n: "named_temporary_file (str_lower (splitext_ext file_path)) w = (t, w1)"
    by (cases "named_temporary_file (str_lower (splitext_ext file_path)) w")
  have m1: "marks w1 = marks w"
    using n by (rule marks_named_temporary_file)
  show ?thesis
  proof (cases t)
    case None
    then show ?thesis
      using a False n m1 by (simp add: compress_if_needed_def Let_def)
  next
    case (Some temp_path)
    obtain s w2 where c: "compress_attempts file_path media_type temp_path
        (if media_type = ''video'' then TELEGRAM_VIDEO_LIMIT else TELEGRAM_FILE_LIMIT) w1 = (s, w2)"
      by (cases "compress_attempts file_path media_type temp_path
        (if media_type = ''video'' then TELEGRAM_VIDEO_LIMIT else TELEGRAM_FILE_LIMIT) w1")
    have m2: "marks w2 = marks w"
      using marks_compress_attempts [OF c] m1 by simp
    show ?thesis
      using a False n Some c m2
      by (auto simp: compress_if_needed_def Let_def split: option.splits if_splits)
  qed
qed

lemma cleanup_test_false:
  "\<not> (cp \<noteq> [] \<and> cp \<noteq> (if cp \<noteq> [] \<and> cp \<noteq> fp0 then cp else fp0))"
  by auto

lemma files_log_event [simp]: "files (log_event e w) = files w"
  by (simp add: log_event_def)

lemma not_mark_HttpPost [simp]: "\<not> is_mark (HttpPost u d)"
  by simp

lemma upload_file_after_compress:
  assumes f: "files w file_path0 = Some n"
      and c: "compress_if_needed file_path0 media_type n w = (cp, w1)"
  shows "files (snd (upload_file cfg file_path0 video_id media_type caption w)) = files w1
       \<and> marks (snd (upload_file cfg file_path0 video_id media_type caption w)) = marks w1"
  using f c cleanup_test_false [of cp file_path0]
  by (simp add: upload_file_def Let_def http_request_def marks_log_event
      split: option.splits prod.splits)

lemma upload_reply_status:
  "\<exists>s. dict_get (fst (upload_reply cfg media_type file_sz cp fp outcome)) ''status'' = Some (JStr s)"
  by (simp add: upload_reply_def error_result_def dict_get_def
      split: http_outcome.splits http_body.splits option.splits)

lemma upload_file_status:
  "\<exists>s. dict_get (fst (upload_file cfg file_path0 video_id media_type caption w)) ''status'' = Some (JStr s)"
proof -
  have e: "\<exists>s. dict_get (error_result m) ''status'' = Some (JStr s)" for m
    by (simp add: error_result_def dict_get_def)
  have r: "upload_reply cfg media_type file_sz cp fp outcome = (res, b) \<Longrightarrow>
           \<exists>s. dict_get res ''status'' = Some (JStr s)" for file_sz cp fp outcome res b
    using upload_reply_status [of cfg media_type file_sz cp fp outcome] by simp
  show ?thesis
    using e r
    by (simp add: upload_file_def Let_def split: option.splits prod.splits)
qed

lemma marks_upload_file:
  "marks (snd (upload_file cfg file_path0 video_id media_type caption w)) = marks w"
proof (cases "files w file_path0")
  case None
  then show ?thesis by (simp add: upload_file_def)
next
  case (Some n)
  obtain cp w1 where c: "compress_if_needed file_path0 media_type n w = (cp, w1)"
    by (cases "compress_if_needed file_path0 media_type n w")
  show ?thesis
    using upload_file_after_compress [OF Some c] marks_compress_if_needed [OF c] by simp
qed

lemmas eval_upload =
  upload_file_def upload_reply_def compress_if_needed_def compress_attempts_def
  compress_audio_def compress_video_def convert_to_webm_def compression_logged_def
  run_ffmpeg_def named_temporary_file_def os_remove_def os_rename_def http_request_def
  log_event_def apply_effect_def path_exists_def splitext_ext_def basename_def str_lower_def
  char_lower_def choose_method_def error_result_def extract_uploaded_file_info_def
  base_url_def TELEGRAM_FILE_LIMIT_def TELEGRAM_VIDEO_LIMIT_def Let_def
  world_big_def world0_def ffmpeg_always_def upload_ok_def upload_rejected_def
  ex_cfg_def ex_message_def ex_audio_def


text \<open>
  C1 at an artifact of 60 MB of kind audio, with a transcoding tool whose every run
  succeeds with an output of 55 MB: the last rung of the ladder leaves \<open>success\<close> true
  although the size test failed, and \<open>_compress_if_needed\<close> returns the temporary file,
  which is larger than the limit of 50 MB.
\<close>

theorem compress_if_needed_returns_oversized:
  "fst (compress_if_needed ''downloads/big.webm'' ''audio'' 62914560 (world_big 57671680 HttpTimeout))
     = ''/tmp/tmp0.webm''
   \<and> files (snd (compress_if_needed ''downloads/big.webm'' ''audio'' 62914560
                    (world_big 57671680 HttpTimeout))) ''/tmp/tmp0.webm'' = Some 57671680
   \<and> TELEGRAM_FILE_LIMIT < 57671680
   \<and> ffmpeg_calls (snd (compress_if_needed ''downloads/big.webm'' ''audio'' 62914560
                    (world_big 57671680 HttpTimeout))) = 3"
  by (simp add: eval_upload)


text \<open>
  C2 at the same artifact with outputs of 40 MB: the upload is made from the temporary
  file, and that file is still there when \<open>upload_file\<close> has returned, whether the upload
  was accepted, rejected with status 413, or timed out.
\<close>

theorem upload_file_leaves_temp_file:
  "dict_get (fst (upload_file ex_cfg ''downloads/big.webm'' ''big'' ''audio'' ''c''
                    (world_big 41943040 upload_ok))) ''status'' = Some (JStr ''success'')
   \<and> files (snd (upload_file ex_cfg ''downloads/big.webm'' ''big'' ''audio'' ''c''
                    (world_big 41943040 upload_ok))) ''/tmp/tmp0.webm'' = Some 41943040
   \<and> fst (upload_file ex_cfg ''downloads/big.webm'' ''big'' ''audio'' ''c''
             (world_big 41943040 upload_rejected)) =
        error_result ''File too large even after compression''
   \<and> files (snd (upload_file ex_cfg ''downloads/big.webm'' ''big'' ''audio'' ''c''
                    (world_big 41943040 upload_rejected))) ''/tmp/tmp0.webm'' = Some 41943040
   \<and> fst (upload_file ex_cfg ''downloads/big.webm'' ''big'' ''audio'' ''c''
             (world_big 41943040 HttpTimeout)) = error_result ''Upload timeout''
   \<and> files (snd (upload_file ex_cfg ''downloads/big.webm'' ''big'' ''audio'' ''c''
                    (world_big 41943040 HttpTimeout))) ''/tmp/tmp0.webm'' = Some 41943040"
  by (simp add: eval_upload dict_get_def)

section \<open>The background relay and its task\<close>

lemma marks_set_task:
  "marks (set_task task_id status rest w) = marks w @ [SetTask task_id status]"
  by (simp add: set_task_def marks_log_event)

lemma tasks_set_task:
  "background_upload_tasks (set_task task_id status rest w) task_id =
   Some ((''status'', JStr status) # rest)"
  by (simp add: set_task_def log_event_def)

lemma upload_background_writes:
  assumes "has_telegram_uploader cfg"
  shows "\<exists>final rest.
           (final = ''completed'' \<or> final = ''failed'')
         \<and> marks (upload_to_telegram_background cfg video_id media_type file_path w) =
             marks w @ [SetTask (video_id @ ''_'' @ media_type) ''uploading'',
                        SetTask (video_id @ ''_'' @ media_type) final]
         \<and> background_upload_tasks (upload_to_telegram_background cfg video_id media_type file_path w)
               (video_id @ ''_'' @ media_type) = Some ((''status'', JStr final) # rest)"
proof -
  let ?id = "video_id @ ''_'' @ media_type"
  let ?w1 = "snd (time_time w)"
  let ?w2 = "set_task ?id ''uploading'' [(''start_time'', JReal (fst (time_time w)))] ?w1"
  let ?cap = "[CHR 0xF0, CHR 0x9F, CHR 0x8E, CHR 0xB5] @ '' '' @ str_title media_type
              @ '' Download'' @ [CHR 0x0A] @ ''Video ID: '' @ video_id"
  let ?u = "upload_file cfg file_path video_id media_type ?cap ?w2"
  let ?w4 = "snd (time_time (snd ?u))"
  let ?rest = "[(''result'', JDict (fst ?u)), (''completed_time'', JReal (fst (time_time (snd ?u))))]"
  let ?final = "if dict_get (fst ?u) ''status'' = Some (JStr ''success'') then ''completed'' else ''failed''"
  have e: "upload_to_telegram_background cfg video_id media_type file_path w =
           set_task ?id ?final ?rest ?w4"
    using assms
    by (simp add: upload_to_telegram_background_def Let_def split: prod.splits)
  have m1: "marks ?w1 = marks w"
    by (simp add: time_time_def)
  have m2: "marks ?w2 = marks w @ [SetTask ?id ''uploading'']"
    using m1 by (simp add: marks_set_task)
  have m3: "marks (snd ?u) = marks ?w2"
    by (rule marks_upload_file)
  have m4: "marks ?w4 = marks w @ [SetTask ?id ''uploading'']"
    using m2 m3 by (simp add: time_time_def)
  have "marks (set_task ?id ?final ?rest ?w4) =
        marks w @ [SetTask ?id ''uploading'', SetTask ?id ?final]"
    using m4 by (simp add: marks_set_task)
  moreover have "background_upload_tasks (set_task ?id ?final ?rest ?w4) ?id =
                 Some ((''status'', JStr ?final) # ?rest)"
    by (rule tasks_set_task)
  moreover have "?final = ''completed'' \<or> ?final = ''failed''"
    by simp
  ultimately show ?thesis
    unfolding e by blast
qed




section \<open>The endpoint in the tier-fallback scenario\<close>

lemma download_tier_fallback:
  assumes f: "files w ''downloads/abc123.webm'' = None"
      and t1: "ydl_tool w (ydl_calls w) = \<lparr>ydl_file = Keep, ydl_raises = Some msg\<rparr>"
      and fu: "str_in ''requested format is not available'' (str_lower msg)"
      and t2: "ydl_tool w (Suc (ydl_calls w)) = \<lparr>ydl_file = Wrote 41943040, ydl_raises = None\<rparr>"
  shows "download ''abc123'' ''audio'' w =
         (Inr ''downloads/abc123.webm'',
          w\<lparr>ydl_calls := ydl_calls w + 2,
            trace := trace w @
              [RunYdl (build_base_opts ''downloads/abc123.webm''
                         [(''format'', JStr ''bestaudio[abr<=128]/bestaudio'')] w)
                      (watch_url ''abc123''),
               RunYdl (build_base_opts ''downloads/abc123.webm''
                         [(''format'', JStr ''bestaudio/best'')] w)
                      (watch_url ''abc123'')],
            files := (files w)(''downloads/abc123.webm'' \<mapsto> 41943040)\<rparr>)"
proof -
  let ?fp = "''downloads/abc123.webm''"
  let ?url = "watch_url ''abc123''"
  let ?o1 = "build_base_opts ?fp [(''format'', JStr ''bestaudio[abr<=128]/bestaudio'')] w"
  let ?o2 = "build_base_opts ?fp [(''format'', JStr ''bestaudio/best'')] w"
  let ?o3 = "build_base_opts ?fp [(''format'', JStr ''worstaudio/worst'')] w"
  let ?w1 = "w\<lparr>ydl_calls := ydl_calls w + 1, trace := trace w @ [RunYdl ?o1 ?url]\<rparr>"
  let ?w2 = "w\<lparr>ydl_calls := ydl_calls w + 2, trace := trace w @ [RunYdl ?o1 ?url, RunYdl ?o2 ?url],
               files := (files w)(?fp \<mapsto> 41943040)\<rparr>"
  have r1: "run_ydl ?o1 ?url (sleep_for 0 w) = (Inl msg, ?w1)"
    using run_ydl_outcome [where opts = ?o1 and p = ?fp and w = w and url = ?url,
        OF outtmpl_build_base_opts t1]
    by (simp add: sleep_for_def apply_effect_def)
  have l1: "retry_loop ?o1 ?url ?fp ((0, 0) # rest) w = (Broke, ?w1)" for rest
    using r1 fu by simp
  have t2': "ydl_tool ?w1 (ydl_calls ?w1) = \<lparr>ydl_file = Wrote 41943040, ydl_raises = None\<rparr>"
    using t2 by simp
  have r2: "run_ydl ?o2 ?url (sleep_for 0 ?w1) = (Inr (), ?w2)"
    using run_ydl_outcome [where opts = ?o2 and p = ?fp and w = ?w1 and url = ?url,
        OF outtmpl_build_base_opts t2']
    by (simp add: sleep_for_def apply_effect_def)
  have l2: "retry_loop ?o2 ?url ?fp ((0, 0) # rest) ?w1 = (Returned ?fp, ?w2)" for rest
    using r2 by (simp add: path_exists_def)
  have en: "enumerate 0 backoff = (0, 0) # enumerate 1 [1, 2, 4]"
    by (simp add: backoff_def)
  have "tier_loop [?o1, ?o2, ?o3] ?url ?fp w = (Inr ?fp, ?w2)"
    using l1 l2 by (simp add: en del: retry_loop.simps)
  then show ?thesis
    using f by (simp add: download_def Let_def canonical_abc123 path_exists_def audio_tries_def
        del: tier_loop.simps)
qed


lemma song_scenario:
  assumes k: "api = API_KEY cfg"
      and a: "downloader_available cfg"
      and f: "files w ''downloads/abc123.webm'' = None"
      and t1: "ydl_tool w (ydl_calls w) = \<lparr>ydl_file = Keep, ydl_raises = Some msg\<rparr>"
      and fu: "str_in ''requested format is not available'' (str_lower msg)"
      and t2: "ydl_tool w (Suc (ydl_calls w)) = \<lparr>ydl_file = Wrote 41943040, ydl_raises = None\<rparr>"
  shows "fst (song cfg ''abc123'' request api True w) =
           JSONResponse 200
             [(''status'', JStr ''done''),
              (''link'', JStr (make_full_link cfg request ''/file'' ''abc123'')),
              (''type'', JStr ''local_file''),
              (''video_id'', JStr ''abc123''),
              (''source'', JStr ''local_downloader''),
              (''background_upload'', JStr ''started''),
              (''upload_task_id'', JStr ''abc123_audio'')]
       \<and> fst (snd (song cfg ''abc123'' request api True w)) =
           [(''abc123'', ''audio'', ''downloads/abc123.webm'')]
       \<and> files (snd (snd (song cfg ''abc123'' request api True w))) ''downloads/abc123.webm'' =
           Some 41943040
       \<and> ydl_calls (snd (snd (song cfg ''abc123'' request api True w))) = ydl_calls w + 2
       \<and> background_upload_tasks (snd (snd (song cfg ''abc123'' request api True w))) =
           background_upload_tasks w
       \<and> marks (snd (snd (song cfg ''abc123'' request api True w))) = marks w
       \<and> (has_telegram_uploader cfg \<longrightarrow>
            (\<exists>final rest.
               (final = ''completed'' \<or> final = ''failed'')
             \<and> marks (snd (serve_song cfg ''abc123'' request api True w)) =
                 marks w @ [SetTask ''abc123_audio'' ''uploading'', SetTask ''abc123_audio'' final]
             \<and> background_upload_tasks (snd (serve_song cfg ''abc123'' request api True w))
                   ''abc123_audio'' = Some ((''status'', JStr final) # rest)))"
proof -
  let ?fp = "''downloads/abc123.webm''"
  define w2 where "w2 = snd (download ''abc123'' ''audio'' w)"
  note dl = download_tier_fallback [OF f t1 fu t2]
  have d: "download ''abc123'' ''audio'' w = (Inr ?fp, w2)"
    unfolding w2_def by (simp add: dl)
  have fs: "files w2 ?fp = Some 41943040"
    unfolding w2_def by (simp add: dl)
  have yc: "ydl_calls w2 = ydl_calls w + 2"
    unfolding w2_def by (simp add: dl)
  have bt: "background_upload_tasks w2 = background_upload_tasks w"
    unfolding w2_def by (simp add: dl)
  have mk: "marks w2 = marks w"
    using d by (rule marks_download)
  have l: "local_download_media cfg ''abc123'' ''audio'' w =
           ([(''status'', JStr ''success''), (''file_path'', JStr ?fp),
             (''video_id'', JStr ''abc123''), (''media_type'', JStr ''audio'')], w2)"
    using a d fs by (simp add: local_download_media_def path_exists_def)
  have m: "download_media cfg ''abc123'' ''audio'' (Some request) w =
           (Inr [(''status'', JStr ''success''), (''type'', JStr ''local_file''),
                 (''link'', JStr (make_full_link cfg request ''/file'' ''abc123'')),
                 (''file_path'', JStr ?fp), (''video_id'', JStr ''abc123''),
                 (''source'', JStr ''local_downloader'')], w2)"
    using l by (simp add: download_media_def dict_get_def)
  have s: "song cfg ''abc123'' request api True w =
           (JSONResponse 200
             [(''status'', JStr ''done''),
              (''link'', JStr (make_full_link cfg request ''/file'' ''abc123'')),
              (''type'', JStr ''local_file''),
              (''video_id'', JStr ''abc123''),
              (''source'', JStr ''local_downloader''),
              (''background_upload'', JStr ''started''),
              (''upload_task_id'', JStr ''abc123_audio'')],
            [(''abc123'', ''audio'', ?fp)], w2)"
    using k m by (simp add: song_def dict_get_def)
  have v: "snd (serve_song cfg ''abc123'' request api True w) =
           upload_to_telegram_background cfg ''abc123'' ''audio'' ?fp w2"
    using s by (simp add: serve_song_def)
  have b: "has_telegram_uploader cfg \<longrightarrow>
            (\<exists>final rest.
               (final = ''completed'' \<or> final = ''failed'')
             \<and> marks (snd (serve_song cfg ''abc123'' request api True w)) =
                 marks w @ [SetTask ''abc123_audio'' ''uploading'', SetTask ''abc123_audio'' final]
             \<and> background_upload_tasks (snd (serve_song cfg ''abc123'' request api True w))
                   ''abc123_audio'' = Some ((''status'', JStr final) # rest))"
  proof
    assume "has_telegram_uploader cfg"
    from upload_background_writes [OF this, of "''abc123''" "''audio''" ?fp w2]
    show "\<exists>final rest.
               (final = ''completed'' \<or> final = ''failed'')
             \<and> marks (snd (serve_song cfg ''abc123'' request api True w)) =
                 marks w @ [SetTask ''abc123_audio'' ''uploading'', SetTask ''abc123_audio'' final]
             \<and> background_upload_tasks (snd (serve_song cfg ''abc123'' request api True w))
                   ''abc123_audio'' = Some ((''status'', JStr final) # rest)"
      by (simp add: v mk)
  qed
  show ?thesis
    using s fs yc bt mk b by simp
qed


lemmas eval_song =
  ex_cfg_def world0_def ydl_fail_then_ok_def path_exists_def

text \<open>
  C6, as the code has it. Identifier \<open>abc123\<close>, kind audio, the right API key, no local
  file, a first fetch that fails with a message of an unavailable format and a second
  fetch that writes a file of 40 MB. The endpoint replies with code 200 and a body whose
  status is \<open>done\<close>, whose type is \<open>local_file\<close> and whose source is \<open>local_downloader\<close>; the
  fetch tool ran twice; one background task is added for the file, and the registry is
  untouched when the reply is made. When the framework runs that task and an uploader is
  configured, the task \<open>abc123_audio\<close> is written with status \<open>uploading\<close> and then with
  \<open>completed\<close> or \<open>failed\<close>.
\<close>

theorem song_tier_fallback_scenario:
  assumes k: "api = API_KEY cfg"
      and a: "downloader_available cfg"
      and f: "files w ''downloads/abc123.webm'' = None"
      and t1: "ydl_tool w (ydl_calls w) = \<lparr>ydl_file = Keep, ydl_raises = Some msg\<rparr>"
      and fu: "str_in ''requested format is not available'' (str_lower msg)"
      and t2: "ydl_tool w (Suc (ydl_calls w)) = \<lparr>ydl_file = Wrote 41943040, ydl_raises = None\<rparr>"
  shows "fst (song cfg ''abc123'' request api True w) =
           JSONResponse 200
             [(''status'', JStr ''done''),
              (''link'', JStr (make_full_link cfg request ''/file'' ''abc123'')),
              (''type'', JStr ''local_file''),
              (''video_id'', JStr ''abc123''),
              (''source'', JStr ''local_downloader''),
              (''background_upload'', JStr ''started''),
              (''upload_task_id'', JStr ''abc123_audio'')]
       \<and> fst (snd (song cfg ''abc123'' request api True w)) =
           [(''abc123'', ''audio'', ''downloads/abc123.webm'')]
       \<and> files (snd (snd (song cfg ''abc123'' request api True w))) ''downloads/abc123.webm'' =
           Some 41943040
       \<and> ydl_calls (snd (snd (song cfg ''abc123'' request api True w))) = ydl_calls w + 2
       \<and> background_upload_tasks (snd (snd (song cfg ''abc123'' request api True w))) =
           background_upload_tasks w
       \<and> marks (snd (snd (song cfg ''abc123'' request api True w))) = marks w
       \<and> (has_telegram_uploader cfg \<longrightarrow>
            (\<exists>final rest.
               (final = ''completed'' \<or> final = ''failed'')
             \<and> marks (snd (serve_song cfg ''abc123'' request api True w)) =
                 marks w @ [SetTask ''abc123_audio'' ''uploading'', SetTask ''abc123_audio'' final]
             \<and> background_upload_tasks (snd (serve_song cfg ''abc123'' request api True w))
                   ''abc123_audio'' = Some ((''status'', JStr final) # rest)))"
  using k a f t1 fu t2 by (rule song_scenario)

theorem song_tier_fallback_scenario_witness:
  "''Shadow'' = API_KEY ex_cfg \<and> downloader_available ex_cfg \<and> has_telegram_uploader ex_cfg
   \<and> files world0 ''downloads/abc123.webm'' = None
   \<and> ydl_raises (ydl_tool world0 (ydl_calls world0)) = Some ex_msg
   \<and> str_in ''requested format is not available'' (str_lower ex_msg)
   \<and> fst (song ex_cfg ''abc123'' ''http://host/'' ''Shadow'' True world0) =
        JSONResponse 200
          [(''status'', JStr ''done''),
           (''link'', JStr (make_full_link ex_cfg ''http://host/'' ''/file'' ''abc123'')),
           (''type'', JStr ''local_file''),
           (''video_id'', JStr ''abc123''),
           (''source'', JStr ''local_downloader''),
           (''background_upload'', JStr ''started''),
           (''upload_task_id'', JStr ''abc123_audio'')]
   \<and> (\<exists>final rest.
         (final = ''completed'' \<or> final = ''failed'')
       \<and> marks (snd (serve_song ex_cfg ''abc123'' ''http://host/'' ''Shadow'' True world0)) =
           [SetTask ''abc123_audio'' ''uploading'', SetTask ''abc123_audio'' final]
       \<and> background_upload_tasks (snd (serve_song ex_cfg ''abc123'' ''http://host/'' ''Shadow'' True world0))
             ''abc123_audio'' = Some ((''status'', JStr final) # rest))"
proof -
  have h: "ydl_tool world0 (ydl_calls world0) = \<lparr>ydl_file = Keep, ydl_raises = Some ex_msg\<rparr>"
    "ydl_tool world0 (Suc (ydl_calls world0)) = \<lparr>ydl_file = Wrote 41943040, ydl_raises = None\<rparr>"
    "files world0 ''downloads/abc123.webm'' = None"
    "''Shadow'' = API_KEY ex_cfg" "downloader_available ex_cfg"
    by (simp_all add: eval_song)
  have u: "has_telegram_uploader ex_cfg"
    by (simp add: has_telegram_uploader_def ex_cfg_def)
  have m: "marks world0 = []"
    by (simp add: marks_def world0_def)
  from song_tier_fallback_scenario [OF h(4) h(5) h(3) h(1) ex_msg_unavailable h(2), of "''http://host/''"]
  show ?thesis
    using h u m ex_msg_unavailable by simp
qed

text \<open>
  The claim C6 as it is worded fails in that scenario: the status of the reply is \<open>done\<close>,
  not \<open>success\<close>, its source is \<open>local_downloader\<close>, not \<open>local\<close>, and no task
  \<open>abc123_audio\<close> exists yet when the reply is made.
\<close>

theorem song_reply_is_done_not_success:
  "dict_get (reply_body (fst (song ex_cfg ''abc123'' ''http://host/'' ''Shadow'' True world0)))
     ''status'' = Some (JStr ''done'')
   \<and> dict_get (reply_body (fst (song ex_cfg ''abc123'' ''http://host/'' ''Shadow'' True world0)))
       ''status'' \<noteq> Some (JStr ''success'')
   \<and> dict_get (reply_body (fst (song ex_cfg ''abc123'' ''http://host/'' ''Shadow'' True world0)))
       ''source'' = Some (JStr ''local_downloader'')
   \<and> dict_get (reply_body (fst (song ex_cfg ''abc123'' ''http://host/'' ''Shadow'' True world0)))
       ''source'' \<noteq> Some (JStr ''local'')
   \<and> background_upload_tasks (snd (snd (song ex_cfg ''abc123'' ''http://host/'' ''Shadow'' True world0)))
       ''abc123_audio'' = None"
proof -
  have "ydl_tool world0 (ydl_calls world0) = \<lparr>ydl_file = Keep, ydl_raises = Some ex_msg\<rparr>"
    and "ydl_tool world0 (Suc (ydl_calls world0)) = \<lparr>ydl_file = Wrote 41943040, ydl_raises = None\<rparr>"
    and "files world0 ''downloads/abc123.webm'' = None"
    and "''Shadow'' = API_KEY ex_cfg" and "downloader_available ex_cfg"
    and "background_upload_tasks world0 ''abc123_audio'' = None"
    by (simp_all add: eval_song)
  from song_scenario [OF this(4) this(5) this(3) this(1) ex_msg_unavailable this(2), of "''http://host/''"]
    this(6)
  show ?thesis
    by (simp add: dict_get_def)
qed

end
